theory Spec2Isabelle
  imports Complex_Main "HOL-Library.Char_ord" "HOL-Library.List_Lexorder"
begin

section \<open>JavaScript values used by the SDK\<close>

text \<open>
  A \<^verbatim>\<open>PublicKey\<close> is identified with its base58 text (\<^verbatim>\<open>toBase58()\<close>, \<^verbatim>\<open>toString()\<close>),
  a \<^verbatim>\<open>Buffer\<close> with its bytes. A \<^verbatim>\<open>Keypair\<close> is the pair of its public key and its
  secret bytes.
\<close>

type_synonym PublicKey = string
type_synonym Buffer = string

record Keypair =
  publicKey :: PublicKey
  secretKey :: Buffer

subsection \<open>\<^verbatim>\<open>Map\<close>: entries in insertion order, keys unique\<close>

text \<open>
  \<^verbatim>\<open>Map.prototype.set\<close> replaces the value of a key that is present and leaves the entry
  where it is; a new key goes to the end. Iteration (\<^verbatim>\<open>values()\<close>, \<^verbatim>\<open>for ... of\<close>) follows
  the order of the entries.
\<close>

fun Map_set :: "'k \<Rightarrow> 'v \<Rightarrow> ('k \<times> 'v) list \<Rightarrow> ('k \<times> 'v) list" where
  "Map_set k v [] = [(k, v)]"
| "Map_set k v ((k', v') # m) = (if k' = k then (k, v) # m else (k', v') # Map_set k v m)"

definition Map_get :: "'k \<Rightarrow> ('k \<times> 'v) list \<Rightarrow> 'v option" where
  "Map_get k m = map_of m k"

definition Map_has :: "'k \<Rightarrow> ('k \<times> 'v) list \<Rightarrow> bool" where
  "Map_has k m = (map_of m k \<noteq> None)"

definition Map_delete :: "'k \<Rightarrow> ('k \<times> 'v) list \<Rightarrow> bool \<times> ('k \<times> 'v) list" where
  "Map_delete k m = (Map_has k m, filter (\<lambda>kv. fst kv \<noteq> k) m)"

definition Map_values :: "('k \<times> 'v) list \<Rightarrow> 'v list" where
  "Map_values m = map snd m"

subsection \<open>Strings: \<^verbatim>\<open>join\<close> and \<^verbatim>\<open>split\<close>\<close>

fun join :: "string \<Rightarrow> string list \<Rightarrow> string" where
  "join sep [] = []"
| "join sep [x] = x"
| "join sep (x # y # ys) = x @ sep @ join sep (y # ys)"

fun split :: "char \<Rightarrow> string \<Rightarrow> string list" where
  "split sep [] = [[]]"
| "split sep (c # cs) =
     (if c = sep then [] # split sep cs
      else (case split sep cs of [] \<Rightarrow> [[c]] | p # ps \<Rightarrow> (c # p) # ps))"

section \<open>The store of \<^verbatim>\<open>Map\<close> objects\<close>

text \<open>
  Every \<^verbatim>\<open>new Map(...)\<close> makes an object of its own, and two references to one object see
  each other's writes. The store maps an address to the entries of the \<^verbatim>\<open>Map\<close> object
  that lives there; \<open>next_free\<close> is the first address not yet handed out.
\<close>

record 'v Store =
  cells :: "nat \<Rightarrow> (string \<times> 'v) list"
  next_free :: nat

definition Store_empty :: "'v Store" where
  "Store_empty = \<lparr>cells = (\<lambda>_. []), next_free = 0\<rparr>"

definition new_Map :: "(string \<times> 'v) list \<Rightarrow> 'v Store \<Rightarrow> nat \<times> 'v Store" where
  "new_Map entries st =
     (next_free st, st\<lparr>cells := (cells st)(next_free st := entries), next_free := Suc (next_free st)\<rparr>)"

text \<open>The mutating methods of a \<^verbatim>\<open>Map\<close> object, applied through a reference to it.\<close>

datatype 'v MapMutation = MSet string 'v | MDelete string | MClear

fun mutate :: "nat \<Rightarrow> 'v MapMutation \<Rightarrow> 'v Store \<Rightarrow> 'v Store" where
  "mutate a (MSet k v) st = st\<lparr>cells := (cells st)(a := Map_set k v (cells st a))\<rparr>"
| "mutate a (MDelete k) st = st\<lparr>cells := (cells st)(a := snd (Map_delete k (cells st a)))\<rparr>"
| "mutate a MClear st = st\<lparr>cells := (cells st)(a := [])\<rparr>"

definition mutations :: "nat \<Rightarrow> 'v MapMutation list \<Rightarrow> 'v Store \<Rightarrow> 'v Store" where
  "mutations a ms st = foldl (\<lambda>s m. mutate a m s) st ms"

section \<open>Entity (core/Entity.ts)\<close>

text \<open>
  The three fields are private and assigned in the constructor only, so an \<^verbatim>\<open>Entity\<close>
  object is the triple of its id, its public key and the address of its own \<^verbatim>\<open>Map\<close>.
  The constructor allocates that \<^verbatim>\<open>Map\<close>, so two \<^verbatim>\<open>Entity\<close> objects never share an
  address and equality of the triples is identity of the objects.
\<close>

record Entity =
  entity_id :: string
  entity_publicKey :: PublicKey
  components :: nat

definition Entity_new :: "string \<Rightarrow> PublicKey \<Rightarrow> 'v Store \<Rightarrow> Entity \<times> 'v Store" where
  "Entity_new i pk st =
     (case new_Map [] st of (a, st') \<Rightarrow>
        (\<lparr>entity_id = i, entity_publicKey = pk, components = a\<rparr>, st'))"

definition getId :: "Entity \<Rightarrow> string" where
  "getId e = entity_id e"

definition getPublicKey :: "Entity \<Rightarrow> PublicKey" where
  "getPublicKey e = entity_publicKey e"

definition addComponent :: "Entity \<Rightarrow> string \<Rightarrow> 'v \<Rightarrow> 'v Store \<Rightarrow> 'v Store" where
  "addComponent e componentType data st = mutate (components e) (MSet componentType data) st"

definition getComponent :: "Entity \<Rightarrow> string \<Rightarrow> 'v Store \<Rightarrow> 'v option" where
  "getComponent e componentType st = Map_get componentType (cells st (components e))"

definition hasComponent :: "Entity \<Rightarrow> string \<Rightarrow> 'v Store \<Rightarrow> bool" where
  "hasComponent e componentType st = Map_has componentType (cells st (components e))"

definition removeComponent :: "Entity \<Rightarrow> string \<Rightarrow> 'v Store \<Rightarrow> bool \<times> 'v Store" where
  "removeComponent e componentType st =
     (fst (Map_delete componentType (cells st (components e))),
      mutate (components e) (MDelete componentType) st)"

text \<open>\<^verbatim>\<open>return new Map(this.components)\<close>: a new object holding the same entries.\<close>

definition getComponents :: "Entity \<Rightarrow> 'v Store \<Rightarrow> nat \<times> 'v Store" where
  "getComponents e st = new_Map (cells st (components e)) st"

section \<open>World (core/World.ts)\<close>

text \<open>
  A system is an object with an \<^verbatim>\<open>update(deltaTime, world)\<close> method; the World holds
  references to systems, here their numbers. The field \<open>store\<close> is the part of the
  JavaScript heap the World's entities live in.
\<close>

record 'v World =
  store :: "'v Store"
  entities :: "(string \<times> Entity) list"
  systems :: "nat list"
  queries :: "(string \<times> Entity list) list"

definition World_new :: "'v Store \<Rightarrow> 'v World" where
  "World_new st = \<lparr>store = st, entities = [], systems = [], queries = []\<rparr>"

definition updateQueries :: "Entity \<Rightarrow> 'v World \<Rightarrow> 'v World" where
  "updateQueries entity w =
     w\<lparr>queries :=
         map (\<lambda>(queryKey, cached).
                (queryKey,
                 if list_all (\<lambda>component. hasComponent entity component (store w))
                      (split CHR '','' queryKey)
                 then cached @ [entity] else cached))
             (queries w)\<rparr>"

text \<open>\<^verbatim>\<open>indexOf\<close> finds the first occurrence of the object, \<^verbatim>\<open>splice(index, 1)\<close> removes it.\<close>

definition removeEntityFromQueries :: "Entity \<Rightarrow> 'v World \<Rightarrow> 'v World" where
  "removeEntityFromQueries entity w =
     w\<lparr>queries := map (\<lambda>(queryKey, cached). (queryKey, remove1 entity cached)) (queries w)\<rparr>"

definition createEntity :: "string \<Rightarrow> PublicKey \<Rightarrow> 'v World \<Rightarrow> Entity \<times> 'v World" where
  "createEntity i pk w =
     (case Entity_new i pk (store w) of (entity, st') \<Rightarrow>
        (entity, updateQueries entity (w\<lparr>store := st', entities := Map_set i entity (entities w)\<rparr>)))"

definition getEntity :: "string \<Rightarrow> 'v World \<Rightarrow> Entity option" where
  "getEntity i w = Map_get i (entities w)"

definition removeEntity :: "string \<Rightarrow> 'v World \<Rightarrow> bool \<times> 'v World" where
  "removeEntity i w =
     (case getEntity i w of
        Some entity \<Rightarrow>
          (True, removeEntityFromQueries entity (w\<lparr>entities := snd (Map_delete i (entities w))\<rparr>))
      | None \<Rightarrow> (False, w))"

definition addSystem :: "nat \<Rightarrow> 'v World \<Rightarrow> 'v World" where
  "addSystem system w = w\<lparr>systems := systems w @ [system]\<rparr>"

text \<open>
  \<^verbatim>\<open>components.sort()\<close> sorts the caller's array in place (by code units) and returns it;
  \<open>queryKey\<close> is computed and not used. The entities are scanned in the order of the
  \<^verbatim>\<open>entities\<close> map.
\<close>

definition query :: "string list \<Rightarrow> 'v World \<Rightarrow> Entity list" where
  "query components' w =
     (let sorted = sort components';
          queryKey = join '','' sorted;
          matchingEntities =
            filter (\<lambda>entity. list_all (\<lambda>component. hasComponent entity component (store w)) sorted)
                   (Map_values (entities w))
      in matchingEntities)"

subsection \<open>Clients of a World\<close>

text \<open>
  The public methods of \<^verbatim>\<open>World\<close>, and those of \<^verbatim>\<open>Entity\<close> on a reference the caller holds.
  \<^verbatim>\<open>update(deltaTime)\<close> runs \<^verbatim>\<open>for (const system of this.systems) system.update(deltaTime, this)\<close>:
  the array iterator reads the array as it is at each step, so a system added during the
  loop is reached by it. What a system does is code of the SDK's user: \<open>impl\<close> gives, for
  a system, the time step, the system's own state and the World it is handed, the calls
  it makes and its new state.

  \<open>run\<close> executes a list of pending calls, one step per unit of fuel, and returns the
  state reached when the calls or the fuel are used up: a system may call \<^verbatim>\<open>update\<close> or
  \<^verbatim>\<open>addSystem\<close> itself, so the loop need not end.
\<close>

datatype 'v WorldCall =
    CreateEntity string PublicKey
  | GetEntity string
  | RemoveEntity string
  | AddSystem nat
  | Update real
  | Query "string list"
  | AddComponent Entity string 'v
  | GetComponent Entity string
  | HasComponent Entity string
  | RemoveComponent Entity string
  | GetComponents Entity

datatype 'v Pending = Call "'v WorldCall" | UpdateFrom real nat

fun call :: "'v WorldCall \<Rightarrow> 'v World \<Rightarrow> 'v World" where
  "call (CreateEntity i pk) w = snd (createEntity i pk w)"
| "call (GetEntity i) w = w"
| "call (RemoveEntity i) w = snd (removeEntity i w)"
| "call (AddSystem system) w = addSystem system w"
| "call (Update deltaTime) w = w"
| "call (Query cs) w = w"
| "call (AddComponent e k v) w = w\<lparr>store := addComponent e k v (store w)\<rparr>"
| "call (GetComponent e k) w = w"
| "call (HasComponent e k) w = w"
| "call (RemoveComponent e k) w = w\<lparr>store := snd (removeComponent e k (store w))\<rparr>"
| "call (GetComponents e) w = w\<lparr>store := snd (getComponents e (store w))\<rparr>"

fun run ::
  "(nat \<Rightarrow> real \<Rightarrow> 's \<Rightarrow> 'v World \<Rightarrow> 'v WorldCall list \<times> 's) \<Rightarrow> nat \<Rightarrow> 'v Pending list \<Rightarrow>
     's \<times> 'v World \<Rightarrow> 's \<times> 'v World" where
  "run impl 0 ts sw = sw"
| "run impl (Suc n) [] sw = sw"
| "run impl (Suc n) (Call (Update deltaTime) # ts) sw = run impl n (UpdateFrom deltaTime 0 # ts) sw"
| "run impl (Suc n) (UpdateFrom deltaTime i # ts) (s, w) =
     (if i < length (systems w)
      then (case impl (systems w ! i) deltaTime s w of
              (cs, s') \<Rightarrow> run impl n (map Call cs @ UpdateFrom deltaTime (Suc i) # ts) (s', w))
      else run impl n ts (s, w))"
| "run impl (Suc n) (Call c # ts) (s, w) = run impl n ts (s, call c w)"

text \<open>\<^verbatim>\<open>world.update(deltaTime)\<close>, called by a client.\<close>

definition update ::
  "(nat \<Rightarrow> real \<Rightarrow> 's \<Rightarrow> 'v World \<Rightarrow> 'v WorldCall list \<times> 's) \<Rightarrow> nat \<Rightarrow> real \<Rightarrow>
     's \<times> 'v World \<Rightarrow> 's \<times> 'v World" where
  "update impl fuel deltaTime sw = run impl fuel [Call (Update deltaTime)] sw"

section \<open>Errors, console output and component data\<close>

text \<open>
  A thrown value is an \<^verbatim>\<open>Error\<close> object: the name of its class, its message, the
  \<^verbatim>\<open>code\<close> of a \<^verbatim>\<open>SolanaStorageError\<close> and the \<^verbatim>\<open>cause\<close> of an \<^verbatim>\<open>SDKError\<close>.
\<close>

datatype JsError =
  JsError (errName: string) (errMessage: string) (errCode: "string option") (errCause: "JsError option")

definition Error :: "string \<Rightarrow> JsError" where
  "Error msg = JsError ''Error'' msg None None"

definition TypeError :: "string \<Rightarrow> JsError" where
  "TypeError msg = JsError ''TypeError'' msg None None"

definition SDKError :: "string \<Rightarrow> JsError option \<Rightarrow> JsError" where
  "SDKError msg cause = JsError ''SDKError'' msg None cause"

definition SolanaStorageError :: "string \<Rightarrow> string \<Rightarrow> JsError" where
  "SolanaStorageError msg code = JsError ''SolanaStorageError'' msg (Some code) None"

datatype LogEntry = ConsoleLog string | ConsoleWarn string | ConsoleError string JsError

text \<open>
  Component data is \<^verbatim>\<open>any\<close>; the values modelled are those of JSON, \<^verbatim>\<open>undefined\<close>,
  functions, BigInts and symbols. A number is an integer (of magnitude below
  \<^verbatim>\<open>2 ** 53\<close>, which JavaScript prints with all its digits), and a string is the list of
  its bytes, so \<^verbatim>\<open>length\<close> counts bytes where JavaScript counts UTF-16 code units: the
  two agree on ASCII text. Objects are trees: a value that contains itself is not
  modelled.
\<close>

datatype JsValue =
    JUndefined
  | JNull
  | JBool bool
  | JNumber int
  | JString string
  | JArray "JsValue list"
  | JObject "(string \<times> JsValue) list"
  | JFunction
  | JBigInt int
  | JSymbol string

fun typeof :: "JsValue \<Rightarrow> string" where
  "typeof JUndefined = ''undefined''"
| "typeof JNull = ''object''"
| "typeof (JBool b) = ''boolean''"
| "typeof (JNumber n) = ''number''"
| "typeof (JString s) = ''string''"
| "typeof (JArray xs) = ''object''"
| "typeof (JObject kvs) = ''object''"
| "typeof JFunction = ''function''"
| "typeof (JBigInt n) = ''bigint''"
| "typeof (JSymbol d) = ''symbol''"

fun isArray :: "JsValue \<Rightarrow> bool" where
  "isArray (JArray xs) = True"
| "isArray v = False"

fun objectEntries :: "JsValue \<Rightarrow> (string \<times> JsValue) list option" where
  "objectEntries (JObject kvs) = Some kvs"
| "objectEntries v = None"

fun arrayElements :: "JsValue \<Rightarrow> JsValue list option" where
  "arrayElements (JArray xs) = Some xs"
| "arrayElements v = None"

fun stringOf :: "JsValue \<Rightarrow> string option" where
  "stringOf (JString s) = Some s"
| "stringOf v = None"

fun numberOf :: "JsValue \<Rightarrow> int option" where
  "numberOf (JNumber n) = Some n"
| "numberOf v = None"

text \<open>
  Every object inherits the properties of \<^verbatim>\<open>Object.prototype\<close>: \<^verbatim>\<open>k in obj\<close> holds for their
  names too, and reading one that \<^verbatim>\<open>obj\<close> does not define itself gives a function (for
  \<^verbatim>\<open>__proto__\<close> the prototype, an object without properties of its own). They are not
  enumerable, so \<^verbatim>\<open>for ... in\<close> does not visit them.
\<close>

definition Object_prototype :: "string list" where
  "Object_prototype =
     [''constructor'', ''__defineGetter__'', ''__defineSetter__'', ''hasOwnProperty'',
      ''__lookupGetter__'', ''__lookupSetter__'', ''isPrototypeOf'', ''propertyIsEnumerable'',
      ''toString'', ''valueOf'', ''__proto__'', ''toLocaleString'']"

definition propertyIn :: "string \<Rightarrow> (string \<times> 'a) list \<Rightarrow> bool" where
  "propertyIn k obj = (Map_has k obj \<or> List.member Object_prototype k)"

definition getProperty :: "(string \<times> JsValue) list \<Rightarrow> string \<Rightarrow> JsValue" where
  "getProperty obj k =
     (case map_of obj k of
        Some v \<Rightarrow> v
      | None \<Rightarrow>
          if k = ''__proto__'' then JObject []
          else if List.member Object_prototype k then JFunction
          else JUndefined)"

text \<open>The text of a number in a template literal.\<close>

function show_nat :: "nat \<Rightarrow> string" where
  "show_nat n =
     (if n < 10 then [''0123456789'' ! n]
      else show_nat (n div 10) @ [''0123456789'' ! (n mod 10)])"
  by pat_completeness auto
termination
  by (relation "measure (\<lambda>n. n)") auto

declare show_nat.simps [simp del]

definition show_int :: "int \<Rightarrow> string" where
  "show_int i = (if i < 0 then ''-'' @ show_nat (nat (- i)) else show_nat (nat i))"

section \<open>\<^verbatim>\<open>JSON.stringify\<close>\<close>

text \<open>
  \<^verbatim>\<open>JSON.stringify\<close> on the values above: it throws a \<^verbatim>\<open>TypeError\<close> at a BigInt, returns
  \<^verbatim>\<open>undefined\<close> for \<^verbatim>\<open>undefined\<close>, a function or a symbol, leaves a property with such a
  value out of an object and writes \<^verbatim>\<open>null\<close> for such an element of an array. In a string
  it escapes the quotation mark, the backslash and the control characters.
\<close>

definition escapeChar :: "char \<Rightarrow> string" where
  "escapeChar c =
     (if c = CHR 0x22 then [CHR 0x5C, CHR 0x22]
      else if c = CHR 0x5C then [CHR 0x5C, CHR 0x5C]
      else if c = CHR 0x08 then [CHR 0x5C, CHR ''b'']
      else if c = CHR 0x0C then [CHR 0x5C, CHR ''f'']
      else if c = CHR 0x0A then [CHR 0x5C, CHR ''n'']
      else if c = CHR 0x0D then [CHR 0x5C, CHR ''r'']
      else if c = CHR 0x09 then [CHR 0x5C, CHR ''t'']
      else if (of_char c :: nat) < 32 then
        [CHR 0x5C, CHR ''u'', CHR ''0'', CHR ''0'',
         ''0123456789abcdef'' ! (of_char c div 16), ''0123456789abcdef'' ! (of_char c mod 16)]
      else [c])"

definition quote :: "string \<Rightarrow> string" where
  "quote s = [CHR 0x22] @ concat (map escapeChar s) @ [CHR 0x22]"

function stringify :: "JsValue \<Rightarrow> JsError + string option"
  and stringifyElements :: "JsValue list \<Rightarrow> JsError + string list"
  and stringifyMembers :: "(string \<times> JsValue) list \<Rightarrow> JsError + string list"
where
  "stringify JUndefined = Inr None"
| "stringify JNull = Inr (Some ''null'')"
| "stringify (JBool b) = Inr (Some (if b then ''true'' else ''false''))"
| "stringify (JNumber n) = Inr (Some (show_int n))"
| "stringify (JString s) = Inr (Some (quote s))"
| "stringify (JArray xs) =
     (case stringifyElements xs of
        Inl e \<Rightarrow> Inl e
      | Inr ts \<Rightarrow> Inr (Some (''['' @ join '','' ts @ '']'')))"
| "stringify (JObject kvs) =
     (case stringifyMembers kvs of
        Inl e \<Rightarrow> Inl e
      | Inr ts \<Rightarrow> Inr (Some (''{'' @ join '','' ts @ ''}'')))"
| "stringify JFunction = Inr None"
| "stringify (JBigInt n) = Inl (TypeError ''Do not know how to serialize a BigInt'')"
| "stringify (JSymbol d) = Inr None"
| "stringifyElements [] = Inr []"
| "stringifyElements (x # xs) =
     (case stringify x of
        Inl e \<Rightarrow> Inl e
      | Inr t \<Rightarrow>
         (case stringifyElements xs of
            Inl e \<Rightarrow> Inl e
          | Inr ts \<Rightarrow> Inr ((case t of None \<Rightarrow> ''null'' | Some text \<Rightarrow> text) # ts)))"
| "stringifyMembers [] = Inr []"
| "stringifyMembers ((k, v) # kvs) =
     (case stringify v of
        Inl e \<Rightarrow> Inl e
      | Inr t \<Rightarrow>
         (case stringifyMembers kvs of
            Inl e \<Rightarrow> Inl e
          | Inr ts \<Rightarrow>
              Inr (case t of None \<Rightarrow> ts | Some text \<Rightarrow> (quote k @ '':'' @ text) # ts)))"
  by pat_completeness auto
termination
  by (relation "measure (\<lambda>x. case x of
                   Inl v \<Rightarrow> size v
                 | Inr (Inl xs) \<Rightarrow> size_list size xs
                 | Inr (Inr kvs) \<Rightarrow> size_list (size_prod (\<lambda>_. 0) size) kvs)")
     simp_all

section \<open>Component schemas and blueprints (types/types.ts)\<close>

text \<open>
  \<^verbatim>\<open>type\<close> is one name or an array of names; \<^verbatim>\<open>items\<close> is one schema or an array of
  schemas. A field that is \<^verbatim>\<open>undefined\<close> is \<open>None\<close>. An object is the list of its
  own properties in the order \<^verbatim>\<open>for ... in\<close> visits them.
\<close>

datatype SchemaType = TypeName string | TypeNames "string list"

datatype ComponentSchema =
  ComponentSchema
    (schemaType: "SchemaType option")
    (optional: "bool option")
    (properties: "(string \<times> ComponentSchema) list option")
    (required: "string list option")
    (items: "SchemaItems option")
    (minLength: "int option")
    (maxLength: "int option")
    (pattern: "string option")
    (minimum: "int option")
    (maximum: "int option")
and SchemaItems = ItemSchema ComponentSchema | ItemSchemas "ComponentSchema list"

record IBTreeMap =
  K :: string
  V :: string
  A :: string

record IBluePrint =
  name :: string
  description :: string
  componentSchemas :: "(string \<times> ComponentSchema) list option"
  entitiesMap :: IBTreeMap
  regionsMap :: IBTreeMap
  instancesMap :: IBTreeMap

text \<open>
  \<^verbatim>\<open>componentSchemas[componentType]\<close> for a name that the object only inherits is a function
  or the prototype: read as a schema, all its fields are \<^verbatim>\<open>undefined\<close>.
\<close>

definition inheritedSchema :: ComponentSchema where
  "inheritedSchema = ComponentSchema None None None None None None None None None None"

definition schemaOf :: "(string \<times> ComponentSchema) list \<Rightarrow> string \<Rightarrow> ComponentSchema" where
  "schemaOf schemas componentType =
     (case map_of schemas componentType of Some schema \<Rightarrow> schema | None \<Rightarrow> inheritedSchema)"

section \<open>The schema validator (RushSDK.validateComponentDataAgainstSchema)\<close>

text \<open>
  The first \<^verbatim>\<open>if\<close> of the validator. Its condition holds when \<^verbatim>\<open>schema.type\<close> is truthy,
  differs from \<^verbatim>\<open>typeof data\<close> and, if it is an array, does not include \<^verbatim>\<open>typeof data\<close>;
  an array never equals a string under \<^verbatim>\<open>!==\<close>.
\<close>

definition expectedText :: "SchemaType \<Rightarrow> string" where
  "expectedText ty = (case ty of TypeName n \<Rightarrow> n | TypeNames ns \<Rightarrow> join '' or '' ns)"

definition incorrectType :: "string \<Rightarrow> SchemaType \<Rightarrow> JsValue \<Rightarrow> JsError" where
  \<open>incorrectType componentType ty data =
     SDKError (''Data for component "'' @ componentType @ ''" has incorrect type. Expected '' @
               expectedText ty @ '', got '' @ typeof data @ ''.'') None\<close>

definition typeCheck :: "JsValue \<Rightarrow> SchemaType option \<Rightarrow> string \<Rightarrow> JsError option" where
  \<open>typeCheck data ty componentType =
     (case ty of
        None \<Rightarrow> None
      | Some (TypeName n) \<Rightarrow>
          if n \<noteq> [] \<and> typeof data \<noteq> n then
            (let typeMatch =
                   (if n = ''array'' \<and> isArray data then True
                    else if n = ''null'' \<and> data = JNull then True
                    else if typeof data = n then True
                    else False)
             in if \<not> typeMatch then Some (incorrectType componentType (TypeName n) data) else None)
          else None
      | Some (TypeNames ns) \<Rightarrow>
          if \<not> List.member ns (typeof data) then
            (let typeMatch =
                   (List.member ns (typeof data)
                    \<or> (List.member ns ''array'' \<and> isArray data)
                    \<or> (List.member ns ''null'' \<and> data = JNull))
             in if \<not> typeMatch then Some (incorrectType componentType (TypeNames ns) data) else None)
          else None)\<close>

text \<open>The loop over \<^verbatim>\<open>schema.required\<close> throws at the first name that is not in the data.\<close>

definition requiredCheck ::
  "(string \<times> JsValue) list \<Rightarrow> string list option \<Rightarrow> string \<Rightarrow> JsError option" where
  \<open>requiredCheck data req componentType =
     (case filter (\<lambda>requiredProp. \<not> propertyIn requiredProp data)
                  (case req of None \<Rightarrow> [] | Some rs \<Rightarrow> rs) of
        [] \<Rightarrow> None
      | requiredProp # _ \<Rightarrow>
          Some (SDKError (''Missing required property "'' @ requiredProp @
                  ''" for component "'' @ componentType @ ''".'') None))\<close>

definition extraWarnings ::
  "(string \<times> JsValue) list \<Rightarrow> (string \<times> ComponentSchema) list \<Rightarrow> string \<Rightarrow> LogEntry list" where
  \<open>extraWarnings data props componentType =
     map (\<lambda>dataKey. ConsoleWarn (''Warning: Component "'' @ componentType @
            ''" has extra property "'' @ dataKey @ ''" not defined in blueprint schema.''))
         (filter (\<lambda>dataKey. \<not> propertyIn dataKey props) (map fst data))\<close>

text \<open>
  \<^verbatim>\<open>Array.isArray(schema.items) ? schema.items[0] : schema.items\<close>, and the test
  \<^verbatim>\<open>if (itemSchema)\<close>.
\<close>

fun itemSchemaOf :: "SchemaItems option \<Rightarrow> ComponentSchema option" where
  "itemSchemaOf None = None"
| "itemSchemaOf (Some (ItemSchema s)) = Some s"
| "itemSchemaOf (Some (ItemSchemas [])) = None"
| "itemSchemaOf (Some (ItemSchemas (s # ss))) = Some s"

text \<open>
  The five checks after the structural part, in the order of the source; each throws.
  \<^verbatim>\<open>new RegExp(pattern).test(data)\<close> belongs to the language: \<open>RegExp_test\<close> is a
  parameter, which gives the result of the test or the \<^verbatim>\<open>SyntaxError\<close> that the constructor
  throws at a pattern that is not a regular expression.
\<close>

definition firstError :: "JsError option list \<Rightarrow> JsError option" where
  "firstError checks = (case filter (\<lambda>c. c \<noteq> None) checks of [] \<Rightarrow> None | c # _ \<Rightarrow> c)"

definition constraints ::
  "(string \<Rightarrow> string \<Rightarrow> JsError + bool) \<Rightarrow> JsValue \<Rightarrow> ComponentSchema \<Rightarrow> string \<Rightarrow>
     JsError option" where
  \<open>constraints RegExp_test data schema componentType =
     firstError
       [case (minLength schema, stringOf data) of
          (Some m, Some s) \<Rightarrow>
            if int (length s) < m then
              Some (SDKError (''Component "'' @ componentType @ ''" string length '' @
                      show_nat (length s) @ '' is less than minimum '' @ show_int m @ ''.'') None)
            else None
        | _ \<Rightarrow> None,
        case (maxLength schema, stringOf data) of
          (Some m, Some s) \<Rightarrow>
            if m < int (length s) then
              Some (SDKError (''Component "'' @ componentType @ ''" string length '' @
                      show_nat (length s) @ '' exceeds maximum '' @ show_int m @ ''.'') None)
            else None
        | _ \<Rightarrow> None,
        case (minimum schema, numberOf data) of
          (Some m, Some n) \<Rightarrow>
            if n < m then
              Some (SDKError (''Component "'' @ componentType @ ''" value '' @ show_int n @
                      '' is less than minimum '' @ show_int m @ ''.'') None)
            else None
        | _ \<Rightarrow> None,
        case (maximum schema, numberOf data) of
          (Some m, Some n) \<Rightarrow>
            if m < n then
              Some (SDKError (''Component "'' @ componentType @ ''" value '' @ show_int n @
                      '' exceeds maximum '' @ show_int m @ ''.'') None)
            else None
        | _ \<Rightarrow> None,
        case (pattern schema, stringOf data) of
          (Some pat, Some s) \<Rightarrow>
            if pat \<noteq> [] then
              (case RegExp_test pat s of
                 Inl e \<Rightarrow> Some e
               | Inr matched \<Rightarrow>
                   if \<not> matched then
                     Some (SDKError (''Component "'' @ componentType @ ''" value "'' @ s @
                             ''" does not match pattern "'' @ pat @ ''".'') None)
                   else None)
            else None
        | _ \<Rightarrow> None]\<close>

text \<open>
  The validator returns the lines it wrote to the console and the error it threw, if any.
  \<open>validateStructure\<close> is the \<^verbatim>\<open>if (schema.type === 'object') ... else if (schema.type === 'array') ...\<close>
  part, \<open>validateProperties\<close> the loop over \<^verbatim>\<open>schema.properties\<close>, \<open>validateItems\<close>
  the loop over the elements of the data.
\<close>

function validateComponentDataAgainstSchema ::
      "(string \<Rightarrow> string \<Rightarrow> JsError + bool) \<Rightarrow> JsValue \<Rightarrow> ComponentSchema \<Rightarrow> string \<Rightarrow>
         LogEntry list \<times> JsError option"
  and validateStructure ::
      "(string \<Rightarrow> string \<Rightarrow> JsError + bool) \<Rightarrow> JsValue \<Rightarrow> ComponentSchema \<Rightarrow> string \<Rightarrow>
         LogEntry list \<times> JsError option"
  and validateProperties ::
      "(string \<Rightarrow> string \<Rightarrow> JsError + bool) \<Rightarrow> (string \<times> JsValue) list \<Rightarrow>
         (string \<times> ComponentSchema) list \<Rightarrow> string \<Rightarrow> LogEntry list \<times> JsError option"
  and validateItems ::
      "(string \<Rightarrow> string \<Rightarrow> JsError + bool) \<Rightarrow> JsValue list \<Rightarrow> ComponentSchema \<Rightarrow> string \<Rightarrow> nat \<Rightarrow>
         LogEntry list \<times> JsError option"
where
  \<open>validateComponentDataAgainstSchema rx data schema componentType =
     (case typeCheck data (schemaType schema) componentType of
        Some e \<Rightarrow> ([], Some e)
      | None \<Rightarrow>
         (case validateStructure rx data schema componentType of
            (out, Some e) \<Rightarrow> (out, Some e)
          | (out, None) \<Rightarrow> (out, constraints rx data schema componentType)))\<close>
| \<open>validateStructure rx data schema componentType =
     (if schemaType schema = Some (TypeName ''object'') then
        (case objectEntries data of
           None \<Rightarrow>
             ([], Some (SDKError (''Component "'' @ componentType @
                     ''" data expected to be an object, got '' @ typeof data @ ''.'') None))
         | Some kvs \<Rightarrow>
            (case requiredCheck kvs (required schema) componentType of
               Some e \<Rightarrow> ([], Some e)
             | None \<Rightarrow>
                (case properties schema of
                   None \<Rightarrow> ([], None)
                 | Some ps \<Rightarrow>
                    (case validateProperties rx kvs ps componentType of
                       (out, Some e) \<Rightarrow> (out, Some e)
                     | (out, None) \<Rightarrow> (out @ extraWarnings kvs ps componentType, None)))))
      else if schemaType schema = Some (TypeName ''array'') then
        (case arrayElements data of
           None \<Rightarrow>
             ([], Some (SDKError (''Component "'' @ componentType @
                     ''" data expected to be an array, got '' @ typeof data @ ''.'') None))
         | Some xs \<Rightarrow>
            (case itemSchemaOf (items schema) of
               None \<Rightarrow> ([], None)
             | Some itemSchema \<Rightarrow>
                 if 0 < length xs then validateItems rx xs itemSchema componentType 0
                 else ([], None)))
      else ([], None))\<close>
| \<open>validateProperties rx data [] componentType = ([], None)\<close>
| \<open>validateProperties rx data ((propName, propSchema) # ps) componentType =
     (if propertyIn propName data then
        (case validateComponentDataAgainstSchema rx (getProperty data propName) propSchema
                (componentType @ ''.'' @ propName) of
           (out, Some e) \<Rightarrow> (out, Some e)
         | (out, None) \<Rightarrow>
             (case validateProperties rx data ps componentType of (out', r) \<Rightarrow> (out @ out', r)))
      else validateProperties rx data ps componentType)\<close>
| \<open>validateItems rx [] itemSchema componentType i = ([], None)\<close>
| \<open>validateItems rx (x # xs) itemSchema componentType i =
     (case validateComponentDataAgainstSchema rx x itemSchema
             (componentType @ ''['' @ show_nat i @ '']'') of
        (out, Some e) \<Rightarrow> (out, Some e)
      | (out, None) \<Rightarrow>
          (case validateItems rx xs itemSchema componentType (Suc i) of
             (out', r) \<Rightarrow> (out @ out', r)))\<close>
  by pat_completeness auto
termination
proof (relation "inv_image (less_than <*lex*> less_than)
         (\<lambda>x. case x of
                 Inl (Inl (rx, d, s, p)) \<Rightarrow> (size s, 1)
               | Inl (Inr (rx, d, s, p)) \<Rightarrow> (size s, 0)
               | Inr (Inl (rx, d, ps, p)) \<Rightarrow> (size_list (size_prod (\<lambda>_. 0) size) ps, 0)
               | Inr (Inr (rx, xs, s, p, i)) \<Rightarrow> (size s, length xs + 2))", goal_cases)
  case 1
  show ?case by (intro wf_inv_image wf_lex_prod wf_less_than)
next
  case 2
  then show ?case by simp
next
  case (3 rx data schema componentType kvs ps)
  then show ?case by (cases schema) simp
next
  case (4 rx data schema componentType xs itemSchema)
  then show ?case by (cases schema; cases "items schema" rule: itemSchemaOf.cases) auto
next
  case 5
  then show ?case by simp
next
  case 6
  then show ?case by simp
next
  case 7
  then show ?case by simp
next
  case 8
  then show ?case by simp
next
  case 9
  then show ?case by simp
qed

declare validateComponentDataAgainstSchema.simps [simp del]
declare validateStructure.simps [simp del]

section \<open>The SDK facade (RushSDK.ts)\<close>

text \<open>
  The fields of the class that the modelled methods read or write, and the console. The
  storage adapter and the chain behind it are outside the program: a \<open>StoragePort\<close>
  gives the outcome of each call, a signature or the value thrown. \<^verbatim>\<open>JSON.stringify\<close>
  and \<^verbatim>\<open>RegExp\<close> belong to the language and are parameters as well: each gives its result
  or the error it throws (\<open>stringify\<close> above is \<^verbatim>\<open>JSON.stringify\<close> on the values modelled;
  \<^verbatim>\<open>undefined\<close> is \<open>None\<close>).
\<close>

record RushSDK =
  world :: "JsValue World"
  wallet :: "Keypair option"
  blueprint :: "IBluePrint option"
  userWalletPublicKey :: "PublicKey option"
  activeSessionKeypair :: "Keypair option"
  console :: "LogEntry list"

record Env =
  JSON_stringify :: "JsValue \<Rightarrow> JsError + string option"
  RegExp_test :: "string \<Rightarrow> string \<Rightarrow> JsError + bool"

record StoragePort =
  port_createEntity :: "Buffer \<Rightarrow> Keypair \<Rightarrow> string \<Rightarrow> JsError + string"
  port_setEntityDataById :: "string \<Rightarrow> Buffer \<Rightarrow> Keypair \<Rightarrow> string \<Rightarrow> JsError + string"

definition RushSDK_new :: "JsValue Store \<Rightarrow> IBluePrint option \<Rightarrow> RushSDK" where
  "RushSDK_new st bp =
     \<lparr>world = World_new st, wallet = None, blueprint = bp, userWalletPublicKey = None,
      activeSessionKeypair = None, console = []\<rparr>"

definition print :: "LogEntry list \<Rightarrow> RushSDK \<Rightarrow> RushSDK" where
  "print out s = s\<lparr>console := console s @ out\<rparr>"

definition setPrimaryWallet :: "Keypair \<Rightarrow> RushSDK \<Rightarrow> RushSDK" where
  "setPrimaryWallet kp s =
     print [ConsoleLog (''Primary wallet set: '' @ publicKey kp)]
       (s\<lparr>wallet := Some kp, userWalletPublicKey := Some (publicKey kp),
          activeSessionKeypair := None\<rparr>)"

definition noActivePayer :: string where
  "noActivePayer =
     ''No active payer wallet found. Set a primary wallet or create and activate a session.''"

definition getActivePayer :: "RushSDK \<Rightarrow> (JsError + Keypair) \<times> RushSDK" where
  "getActivePayer s =
     (case activeSessionKeypair s of
        Some kp \<Rightarrow> (Inr kp, print [ConsoleLog ''Using active session keypair as payer.''] s)
      | None \<Rightarrow>
         (case wallet s of
            Some kp \<Rightarrow> (Inr kp, print [ConsoleLog ''Using primary wallet as payer.''] s)
          | None \<Rightarrow> (Inl (SDKError noActivePayer None), s)))"

definition activateSessionKeypair :: "Keypair \<Rightarrow> RushSDK \<Rightarrow> RushSDK" where
  "activateSessionKeypair sessionKeypair s =
     print [ConsoleLog (''Session activated with keypair: '' @ publicKey sessionKeypair)]
       (s\<lparr>activeSessionKeypair := Some sessionKeypair, wallet := Some sessionKeypair\<rparr>)"

definition deactivateSession :: "RushSDK \<Rightarrow> RushSDK" where
  "deactivateSession s =
     print [ConsoleLog ''Session deactivated. SDK will use primary wallet if set, or require a new session/wallet.'']
       ((print [ConsoleLog (''Deactivating session keypair: '' @
                   (case activeSessionKeypair s of
                      Some kp \<Rightarrow> publicKey kp | None \<Rightarrow> ''undefined''))] s)
          \<lparr>activeSessionKeypair := None, wallet := None\<rparr>)"

definition setWallet :: "Keypair \<Rightarrow> RushSDK \<Rightarrow> RushSDK" where
  "setWallet kp s =
     (print [ConsoleWarn ''setWallet is called. Consider using setPrimaryWallet or activateSessionKeypair for clarity with session management.''] s)
       \<lparr>wallet := Some kp,
        userWalletPublicKey :=
          (if userWalletPublicKey s = None \<or> userWalletPublicKey s \<noteq> Some (publicKey kp)
           then Some (publicKey kp) else userWalletPublicKey s),
        activeSessionKeypair := None\<rparr>"

text \<open>
  The first half of \<^verbatim>\<open>processComponent\<close>: the check against the blueprint, with the lines
  written to the console and the error thrown, if any. The line that reports a
  successful validation holds \<^verbatim>\<open>JSON.stringify(componentData)\<close>: what that call throws
  leaves \<^verbatim>\<open>processComponent\<close> as well.
\<close>

definition blueprintValidation ::
  "Env \<Rightarrow> IBluePrint option \<Rightarrow> string \<Rightarrow> string \<Rightarrow> JsValue \<Rightarrow> LogEntry list \<times> JsError option" where
  \<open>blueprintValidation env bp entityId componentType componentData =
     (case bp of
        None \<Rightarrow> ([], None)
      | Some b \<Rightarrow>
         (case componentSchemas b of
            Some schemas \<Rightarrow>
              if \<not> propertyIn componentType schemas then
                ([], Some (SDKError (''Component type "'' @ componentType @
                        ''" is not defined in the blueprint's componentSchemas.'') None))
              else
                (case validateComponentDataAgainstSchema (RegExp_test env) componentData
                        (schemaOf schemas componentType) componentType of
                   (out, Some e) \<Rightarrow> (out, Some e)
                 | (out, None) \<Rightarrow>
                     (case JSON_stringify env componentData of
                        Inl e \<Rightarrow> (out, Some e)
                      | Inr text \<Rightarrow>
                          (out @ [ConsoleLog (''Component "'' @ componentType @ ''" for entity "'' @
                                     entityId @
                                     ''" validated successfully against blueprint. Data: '' @
                                     (case text of None \<Rightarrow> ''undefined'' | Some t \<Rightarrow> t))],
                           None)))
          | None \<Rightarrow>
              ([ConsoleWarn (''Blueprint "'' @ name b @
                    ''" is loaded but does not contain a 'componentSchemas' definition. Skipping validation for component "'' @
                    componentType @ ''".'')], None)))\<close>

definition processComponent ::
  "Env \<Rightarrow> string \<Rightarrow> string \<Rightarrow> JsValue \<Rightarrow> RushSDK \<Rightarrow> (JsError + unit) \<times> RushSDK" where
  \<open>processComponent env entityId componentType componentData s =
     (case blueprintValidation env (blueprint s) entityId componentType componentData of
        (out, Some e) \<Rightarrow> (Inl e, print out s)
      | (out, None) \<Rightarrow>
         (case getEntity entityId (world s) of
            Some entity \<Rightarrow>
              (Inr (),
               (print out s)
                 \<lparr>world := (world s)\<lparr>store := addComponent entity componentType componentData
                                                 (store (world s))\<rparr>\<rparr>)
          | None \<Rightarrow>
              (Inr (),
               print (out @ [ConsoleWarn (''Entity "'' @ entityId @
                               ''" not found locally. Component "'' @ componentType @
                               ''" was validated but not added.'')]) s)))\<close>

text \<open>
  \<^verbatim>\<open>serializeEntityData\<close> reads the components through \<^verbatim>\<open>getComponents()\<close>, which
  allocates the copy: the store is returned with it. \<^verbatim>\<open>JSON.stringify\<close> may throw, and
  \<^verbatim>\<open>Buffer.from(undefined)\<close> is a \<^verbatim>\<open>TypeError\<close>.
\<close>

definition serializeEntityData ::
  "Env \<Rightarrow> Entity \<Rightarrow> JsValue Store \<Rightarrow> (JsError + Buffer) \<times> JsValue Store" where
  "serializeEntityData env entity st =
     (case getComponents entity st of
        (m, st') \<Rightarrow>
          (case JSON_stringify env
                  (JObject [(''id'', JString (getId entity)),
                            (''owner'', JString (getPublicKey entity)),
                            (''components'', JObject (cells st' m))]) of
             Inl e \<Rightarrow> Inl e
           | Inr None \<Rightarrow>
               Inl (TypeError ''The first argument must be of type string or an instance of Buffer, ArrayBuffer, or Array or an Array-like Object. Received undefined'')
           | Inr (Some text) \<Rightarrow> Inr text,
           st'))"

text \<open>The loop \<^verbatim>\<open>for (const [componentType, data] of Object.entries(components))\<close>.\<close>

fun processComponents ::
  "Env \<Rightarrow> string \<Rightarrow> (string \<times> JsValue) list \<Rightarrow> RushSDK \<Rightarrow> (JsError + unit) \<times> RushSDK" where
  "processComponents env entityId [] s = (Inr (), s)"
| "processComponents env entityId ((componentType, data) # rest) s =
     (case processComponent env entityId componentType data s of
        (Inl e, s') \<Rightarrow> (Inl e, s')
      | (Inr u, s') \<Rightarrow> processComponents env entityId rest s')"

text \<open>
  \<^verbatim>\<open>createEntity(components)\<close> of the facade. \<open>entityAccount\<close> is the keypair that
  \<^verbatim>\<open>Keypair.generate()\<close> returns in this call.
\<close>

definition sdk_createEntity ::
  "Env \<Rightarrow> StoragePort \<Rightarrow> Keypair \<Rightarrow> (string \<times> JsValue) list \<Rightarrow> RushSDK \<Rightarrow>
     (JsError + Entity) \<times> RushSDK" where
  "sdk_createEntity env port entityAccount comps s =
     (case getActivePayer s of
        (Inl e, s1) \<Rightarrow> (Inl e, s1)
      | (Inr payer, s1) \<Rightarrow>
         (let entityId = publicKey entityAccount in
          case createEntity entityId (publicKey entityAccount) (world s1) of
            (entity, w) \<Rightarrow>
              (case processComponents env entityId comps (s1\<lparr>world := w\<rparr>) of
                 (Inl e, s2) \<Rightarrow> (Inl e, s2)
               | (Inr u, s2) \<Rightarrow>
                  (case serializeEntityData env entity (store (world s2)) of
                     (Inl e, st) \<Rightarrow> (Inl e, s2\<lparr>world := (world s2)\<lparr>store := st\<rparr>\<rparr>)
                   | (Inr serializedEntityData, st) \<Rightarrow>
                       (let s3 = s2\<lparr>world := (world s2)\<lparr>store := st\<rparr>\<rparr> in
                        case port_createEntity port serializedEntityData payer ''default_world'' of
                          Inr signature \<Rightarrow>
                            (Inr entity,
                             print [ConsoleLog (''Entity '' @ entityId @
                                      '' created on-chain. Signature: '' @ signature)] s3)
                        | Inl error \<Rightarrow>
                            (Inl (SDKError (''Failed to save entity '' @ entityId @
                                    '' to chain during creation.'') (Some error)), s3))))))"

definition saveEntityToChain ::
  "Env \<Rightarrow> StoragePort \<Rightarrow> Entity \<Rightarrow> RushSDK \<Rightarrow> (JsError + unit) \<times> RushSDK" where
  "saveEntityToChain env port entity s =
     (case getActivePayer s of
        (Inl e, s1) \<Rightarrow> (Inl e, s1)
      | (Inr payer, s1) \<Rightarrow>
         (case serializeEntityData env entity (store (world s1)) of
            (serialized, st) \<Rightarrow>
              (let s2 = s1\<lparr>world := (world s1)\<lparr>store := st\<rparr>\<rparr> in
               case (case serialized of
                       Inl e \<Rightarrow> Inl e
                     | Inr serializedData \<Rightarrow>
                         port_setEntityDataById port (getId entity) serializedData payer
                           ''default_world'') of
                 Inr signature \<Rightarrow>
                   (Inr (),
                    print [ConsoleLog (''Entity '' @ getId entity @
                             '' saved/updated on chain via setEntityDataById.'')] s2)
               | Inl error \<Rightarrow>
                   (Inl (SDKError (''Failed to save entity '' @ getId entity @ '' to chain'')
                           (Some error)), s2))))"

fun saveEntities ::
  "Env \<Rightarrow> StoragePort \<Rightarrow> Entity list \<Rightarrow> RushSDK \<Rightarrow> (JsError + unit) \<times> RushSDK" where
  "saveEntities env port [] s = (Inr (), s)"
| "saveEntities env port (entity # rest) s =
     (case saveEntityToChain env port entity s of
        (Inl e, s') \<Rightarrow> (Inl e, s')
      | (Inr u, s') \<Rightarrow> saveEntities env port rest s')"

definition saveToChain :: "Env \<Rightarrow> StoragePort \<Rightarrow> RushSDK \<Rightarrow> (JsError + unit) \<times> RushSDK" where
  "saveToChain env port s =
     (case getActivePayer s of
        (Inl e, s1) \<Rightarrow> (Inl e, s1)
      | (Inr payer, s1) \<Rightarrow>
         (let s2 = print [ConsoleLog ''Saving world state to the blockchain...''] s1;
              entitiesToSave = query [] (world s2)
          in case saveEntities env port entitiesToSave s2 of
               (Inl error, s3) \<Rightarrow>
                 (Inl (SDKError ''Failed to save world state to chain'' (Some error)), s3)
             | (Inr u, s3) \<Rightarrow>
                 (Inr (), print [ConsoleLog ''World state saved to blockchain.''] s3)))"

section \<open>The storage adapters: reads\<close>

text \<open>
  What the RPC node answers is outside the program. A \<open>Connection\<close> gives, for each
  request, the value the promise resolves to or the error it rejects with. An account's
  \<^verbatim>\<open>data\<close> is a \<^verbatim>\<open>Buffer\<close>, of any length, or is missing (\<^verbatim>\<open>null\<close>, \<^verbatim>\<open>undefined\<close>); a
  \<^verbatim>\<open>Buffer\<close> is an object and so is truthy whatever its length.
  \<^verbatim>\<open>PublicKey.findProgramAddressSync\<close> belongs to the chain's library and is a parameter.
\<close>

record AccountInfo =
  accountData :: "Buffer option"
  lamports :: nat
  owner :: PublicKey

record Connection =
  getAccountInfo :: "PublicKey \<Rightarrow> JsError + AccountInfo option"
  getMultipleAccountsInfo :: "PublicKey list \<Rightarrow> JsError + AccountInfo option list"

type_synonym FindProgramAddress = "Buffer list \<Rightarrow> PublicKey \<Rightarrow> JsError + PublicKey \<times> nat"

subsection \<open>storage/SolanaStorageAdapter.ts\<close>

text \<open>\<^verbatim>\<open>accountInfo?.data || null\<close>\<close>

definition dataOrNull :: "AccountInfo option \<Rightarrow> Buffer option" where
  "dataOrNull accountInfo = (case accountInfo of None \<Rightarrow> None | Some info \<Rightarrow> accountData info)"

definition getData :: "Connection \<Rightarrow> PublicKey \<Rightarrow> LogEntry list \<times> (JsError + Buffer option)" where
  "getData conn address =
     (case getAccountInfo conn address of
        Inr accountInfo \<Rightarrow> ([], Inr (dataOrNull accountInfo))
      | Inl error \<Rightarrow>
          ([ConsoleError ''Error fetching data from SolanaStorageAdapter:'' error], Inr None))"

definition getMultipleAccounts ::
  "Connection \<Rightarrow> PublicKey list \<Rightarrow> LogEntry list \<times> (JsError + Buffer option list)" where
  "getMultipleAccounts conn addresses =
     (case getMultipleAccountsInfo conn addresses of
        Inr accountsInfo \<Rightarrow> ([], Inr (map dataOrNull accountsInfo))
      | Inl error \<Rightarrow>
          ([ConsoleError ''Error fetching multiple accounts from SolanaStorageAdapter:'' error],
           Inr (replicate (length addresses) None)))"

definition getEntityDataById ::
  "FindProgramAddress \<Rightarrow> Connection \<Rightarrow> PublicKey \<Rightarrow> string \<Rightarrow> string \<Rightarrow>
     LogEntry list \<times> (JsError + Buffer option)" where
  \<open>getEntityDataById findProgramAddressSync conn programId entityId worldName =
     (case findProgramAddressSync [''entity'', worldName, entityId] programId of
        Inr (entityPDA, bump) \<Rightarrow>
          (case getData conn entityPDA of
             (out, r) \<Rightarrow>
               (ConsoleLog (''Derived Entity PDA for ID "'' @ entityId @ ''" in world "'' @
                              worldName @ ''": '' @ entityPDA) # out, r))
      | Inl error \<Rightarrow>
          ([ConsoleError (''Error in SolanaStorageAdapter.getEntityDataById for entityId "'' @
                            entityId @ ''":'') error], Inr None))\<close>

subsection \<open>The adapter with \<^verbatim>\<open>SolanaStorageError\<close> (\<^verbatim>\<open>unnamed/part_006\<close>)\<close>

text \<open>
  Each method is one \<^verbatim>\<open>try\<close> block whose \<^verbatim>\<open>catch\<close> wraps whatever was thrown, the
  method's own \<^verbatim>\<open>SolanaStorageError\<close> included: \<open>..._try\<close> is the body of the block.
\<close>

definition getData_try :: "Connection \<Rightarrow> PublicKey \<Rightarrow> JsError + Buffer" where
  "getData_try conn address =
     (case getAccountInfo conn address of
        Inl error \<Rightarrow> Inl error
      | Inr accountInfo \<Rightarrow>
         (case dataOrNull accountInfo of
            None \<Rightarrow>
              Inl (SolanaStorageError (''Account data not found for address '' @ address)
                     ''DATA_FETCH_ERROR'')
          | Some d \<Rightarrow> Inr d))"

definition getData_strict ::
  "Connection \<Rightarrow> PublicKey \<Rightarrow> LogEntry list \<times> (JsError + Buffer option)" where
  "getData_strict conn address =
     (case getData_try conn address of
        Inr d \<Rightarrow> ([], Inr (Some d))
      | Inl error \<Rightarrow>
          ([ConsoleError ''Error fetching data from SolanaStorageAdapter:'' error],
           Inl (SolanaStorageError (''Failed to fetch data for address '' @ address @ '': '' @
                                     errMessage error) ''DATA_FETCH_ERROR'')))"

text \<open>
  The callback of \<^verbatim>\<open>accountsInfo.map\<close> throws at the first entry without data; reading
  \<^verbatim>\<open>addresses[index].toString()\<close> past the end of \<^verbatim>\<open>addresses\<close> is a \<^verbatim>\<open>TypeError\<close>.
\<close>

fun collectData :: "PublicKey list \<Rightarrow> nat \<Rightarrow> AccountInfo option list \<Rightarrow> JsError + Buffer list" where
  "collectData addresses index [] = Inr []"
| "collectData addresses index (info # infos) =
     (case dataOrNull info of
        None \<Rightarrow>
          (if index < length addresses then
             Inl (SolanaStorageError (''Account data not found for address '' @ addresses ! index)
                    ''MULTIPLE_ACCOUNTS_FETCH_ERROR'')
           else Inl (TypeError ''Cannot read properties of undefined (reading 'toString')''))
      | Some d \<Rightarrow>
          (case collectData addresses (Suc index) infos of
             Inl e \<Rightarrow> Inl e
           | Inr ds \<Rightarrow> Inr (d # ds)))"

definition getMultipleAccounts_try :: "Connection \<Rightarrow> PublicKey list \<Rightarrow> JsError + Buffer list" where
  "getMultipleAccounts_try conn addresses =
     (case getMultipleAccountsInfo conn addresses of
        Inl error \<Rightarrow> Inl error
      | Inr accountsInfo \<Rightarrow> collectData addresses 0 accountsInfo)"

definition getMultipleAccounts_strict ::
  "Connection \<Rightarrow> PublicKey list \<Rightarrow> LogEntry list \<times> (JsError + Buffer option list)" where
  "getMultipleAccounts_strict conn addresses =
     (case getMultipleAccounts_try conn addresses of
        Inr results \<Rightarrow> ([], Inr (map Some results))
      | Inl error \<Rightarrow>
          ([ConsoleError ''Error fetching multiple accounts from SolanaStorageAdapter:'' error],
           Inl (SolanaStorageError (''Failed to fetch multiple accounts: '' @ errMessage error)
                  ''MULTIPLE_ACCOUNTS_FETCH_ERROR'')))"

definition getEntityDataById_try ::
  "FindProgramAddress \<Rightarrow> Connection \<Rightarrow> PublicKey \<Rightarrow> string \<Rightarrow> string \<Rightarrow>
     LogEntry list \<times> (JsError + Buffer)" where
  \<open>getEntityDataById_try findProgramAddressSync conn programId entityId worldName =
     (case findProgramAddressSync [''entity'', worldName, entityId] programId of
        Inl error \<Rightarrow> ([], Inl error)
      | Inr (entityPda, bump) \<Rightarrow>
          ([ConsoleLog (''Derived Entity PDA for ID "'' @ entityId @ ''" in world "'' @
                          worldName @ ''": '' @ entityPda)],
           case getAccountInfo conn entityPda of
             Inl error \<Rightarrow> Inl error
           | Inr accountInfo \<Rightarrow>
              (case dataOrNull accountInfo of
                 None \<Rightarrow>
                   Inl (SolanaStorageError (''Entity '' @ entityId @ '' not found in world '' @
                                             worldName) ''ENTITY_GET_ERROR'')
               | Some d \<Rightarrow> Inr d)))\<close>

definition getEntityDataById_strict ::
  "FindProgramAddress \<Rightarrow> Connection \<Rightarrow> PublicKey \<Rightarrow> string \<Rightarrow> string \<Rightarrow>
     LogEntry list \<times> (JsError + Buffer option)" where
  \<open>getEntityDataById_strict findProgramAddressSync conn programId entityId worldName =
     (case getEntityDataById_try findProgramAddressSync conn programId entityId worldName of
        (out, Inr d) \<Rightarrow> (out, Inr (Some d))
      | (out, Inl error) \<Rightarrow>
          (out @ [ConsoleError (''Error in SolanaStorageAdapter.getEntityDataById for entityId "'' @
                                  entityId @ ''":'') error],
           Inl (SolanaStorageError (''Failed to get entity data for ID '' @ entityId @ '': '' @
                                     errMessage error) ''ENTITY_GET_ERROR'')))\<close>

section \<open>Scenarios\<close>

text \<open>The World of the query tests: \<^verbatim>\<open>e1\<close> has a position and is renderable, \<^verbatim>\<open>e2\<close> has a position.\<close>

definition queryWorld :: "JsValue World" where
  "queryWorld =
     (case createEntity ''e1'' ''pk1'' (World_new Store_empty) of
        (entity1, w1) \<Rightarrow>
          (let w2 = call (AddComponent entity1 ''position'' (JObject [(''x'', JNumber 0), (''y'', JNumber 0)])) w1;
               w3 = call (AddComponent entity1 ''renderable'' (JBool True)) w2
           in case createEntity ''e2'' ''pk2'' w3 of
                (entity2, w4) \<Rightarrow>
                  call (AddComponent entity2 ''position'' (JObject [(''x'', JNumber 10), (''y'', JNumber 5)])) w4))"

definition entity1 :: Entity where
  "entity1 = \<lparr>entity_id = ''e1'', entity_publicKey = ''pk1'', components = 0\<rparr>"

definition entity2 :: Entity where
  "entity2 = \<lparr>entity_id = ''e2'', entity_publicKey = ''pk2'', components = 1\<rparr>"

text \<open>The entity of the test \<^verbatim>\<open>getComponents should return a copy, not a reference\<close>.\<close>

definition copyStore :: "JsValue Store" where
  "copyStore =
     (case Entity_new ''testEntity'' ''11111111111111111111111111111111'' Store_empty of
        (entity, st) \<Rightarrow> addComponent entity ''test'' (JObject [(''value'', JNumber 1)]) st)"

definition testEntity :: Entity where
  "testEntity = \<lparr>entity_id = ''testEntity'',
                  entity_publicKey = ''11111111111111111111111111111111'', components = 0\<rparr>"

text \<open>A system that creates an entity and queries at each tick, and a client of the World.\<close>

definition spawner :: "nat \<Rightarrow> real \<Rightarrow> nat \<Rightarrow> JsValue World \<Rightarrow> JsValue WorldCall list \<times> nat" where
  "spawner system deltaTime count w =
     ([CreateEntity (''spawned'' @ show_nat count) ''pk'', Query [''position'']], Suc count)"

definition cacheCalls :: "JsValue WorldCall list" where
  "cacheCalls =
     [Query [''position''],
      CreateEntity ''e1'' ''pk1'',
      AddSystem 7,
      Query [''position''],
      Update 1,
      RemoveEntity ''e1'',
      Query [''position'']]"

text \<open>Two wallets, a facade without blueprint, and a chain that accepts everything.\<close>

definition walletW1 :: Keypair where
  "walletW1 = \<lparr>publicKey = ''W1'', secretKey = ''secret1''\<rparr>"

definition walletW2 :: Keypair where
  "walletW2 = \<lparr>publicKey = ''W2'', secretKey = ''secret2''\<rparr>"

definition entityAccount1 :: Keypair where
  "entityAccount1 = \<lparr>publicKey = ''E1'', secretKey = ''secretE1''\<rparr>"

definition freshSDK :: RushSDK where
  "freshSDK = RushSDK_new Store_empty None"

definition plainEnv :: Env where
  "plainEnv = \<lparr>JSON_stringify = stringify, RegExp_test = (\<lambda>p s. Inr True)\<rparr>"

definition acceptingPort :: StoragePort where
  "acceptingPort =
     \<lparr>port_createEntity = (\<lambda>d payer worldName. Inr ''signature''),
      port_setEntityDataById = (\<lambda>i d payer worldName. Inr ''signature'')\<rparr>"

text \<open>The blueprint of the facade's tests (\<^verbatim>\<open>sampleBlueprint\<close>), and a facade that loaded it.\<close>

definition typed :: "string \<Rightarrow> ComponentSchema" where
  "typed t = ComponentSchema (Some (TypeName t)) None None None None None None None None None"

definition PositionSchema :: ComponentSchema where
  "PositionSchema =
     ComponentSchema (Some (TypeName ''object'')) None
       (Some [(''x'', typed ''number''), (''y'', typed ''number''),
              (''z'', ComponentSchema (Some (TypeName ''number'')) (Some True) None None None
                        None None None None None)])
       (Some [''x'', ''y'']) None None None None None None"

definition HealthSchema :: ComponentSchema where
  "HealthSchema =
     ComponentSchema (Some (TypeName ''object'')) None
       (Some [(''current'', ComponentSchema (Some (TypeName ''number'')) None None None None
                              None None None (Some 0) None),
              (''max'', ComponentSchema (Some (TypeName ''number'')) None None None None
                          None None None (Some 1) None)])
       (Some [''current'', ''max'']) None None None None None None"

definition sampleSchemas :: "(string \<times> ComponentSchema) list" where
  "sampleSchemas =
     [(''Position'', PositionSchema),
      (''Health'', HealthSchema),
      (''PlayerTag'', typed ''boolean''),
      (''Name'', ComponentSchema (Some (TypeName ''string'')) None None None None
                   (Some 1) (Some 50) None None None),
      (''Inventory'', ComponentSchema (Some (TypeName ''array'')) None None None
                        (Some (ItemSchema (typed ''string''))) None None None None None)]"

definition sampleBlueprint :: IBluePrint where
  "sampleBlueprint =
     \<lparr>name = ''TestBlueprint'', description = ''A test blueprint'',
      componentSchemas = Some sampleSchemas,
      entitiesMap = \<lparr>K = [], V = [], A = []\<rparr>,
      regionsMap = \<lparr>K = [], V = [], A = []\<rparr>,
      instancesMap = \<lparr>K = [], V = [], A = []\<rparr>\<rparr>"

definition blueprintSDK :: RushSDK where
  "blueprintSDK = RushSDK_new Store_empty (Some sampleBlueprint)"

text \<open>
  Two more \<^verbatim>\<open>Position\<close> schemas whose properties \<^verbatim>\<open>x\<close> and \<^verbatim>\<open>y\<close> have type number: one
  requires a third property, the other declares \<^verbatim>\<open>y\<close> first and bounds it from below.
  A blueprint whose component \<^verbatim>\<open>Score\<close> is a BigInt.
\<close>

definition requiresZSchema :: ComponentSchema where
  "requiresZSchema =
     ComponentSchema (Some (TypeName ''object'')) None
       (Some [(''x'', typed ''number''), (''y'', typed ''number'')])
       (Some [''x'', ''y'', ''z'']) None None None None None None"

definition boundedYSchema :: ComponentSchema where
  "boundedYSchema =
     ComponentSchema (Some (TypeName ''object'')) None
       (Some [(''y'', ComponentSchema (Some (TypeName ''number'')) None None None None
                        None None None (Some 100) None),
              (''x'', typed ''number'')])
       None None None None None None None"

definition requiresZSDK :: RushSDK where
  "requiresZSDK =
     RushSDK_new Store_empty
       (Some (sampleBlueprint\<lparr>componentSchemas := Some [(''Position'', requiresZSchema)]\<rparr>))"

definition boundedYSDK :: RushSDK where
  "boundedYSDK =
     RushSDK_new Store_empty
       (Some (sampleBlueprint\<lparr>componentSchemas := Some [(''Position'', boundedYSchema)]\<rparr>))"


text \<open>A chain that rejects every transaction.\<close>

definition rejectingPort :: StoragePort where
  "rejectingPort =
     \<lparr>port_createEntity =
        (\<lambda>d payer worldName. Inl (Error ''Failed to create entity: Transaction simulation failed'')),
      port_setEntityDataById =
        (\<lambda>i d payer worldName. Inl (Error ''Failed to set entity data: Transaction simulation failed''))\<rparr>"

text \<open>The entries of a \<^verbatim>\<open>Map\<close> after \<^verbatim>\<open>set(k, v)\<close> for each pair of a list, in its order.\<close>

definition attach :: "(string \<times> 'v) list \<Rightarrow> (string \<times> 'v) list \<Rightarrow> (string \<times> 'v) list" where
  "attach m comps = foldl (\<lambda>m (k, v). Map_set k v m) m comps"

text \<open>
  A call raises with a code when it throws a \<^verbatim>\<open>SolanaStorageError\<close> whose \<^verbatim>\<open>code\<close> is
  that code.
\<close>

definition raises :: "string \<Rightarrow> JsError + 'a \<Rightarrow> bool" where
  "raises code r =
     (case r of
        Inl e \<Rightarrow> errName e = ''SolanaStorageError'' \<and> errCode e = Some code
      | Inr v \<Rightarrow> False)"

text \<open>
  Three nodes: one on which every account exists and holds no bytes (as a wallet's
  account does), one whose requests fail, and one that finds no account, or an account
  without \<^verbatim>\<open>data\<close>. \<open>derive\<close> stands for an address derivation that succeeds.
\<close>

definition emptyAccount :: AccountInfo where
  "emptyAccount =
     \<lparr>accountData = Some [], lamports = 1000000, owner = ''11111111111111111111111111111111''\<rparr>"

definition emptyPayloadConnection :: Connection where
  "emptyPayloadConnection =
     \<lparr>getAccountInfo = (\<lambda>address. Inr (Some emptyAccount)),
      getMultipleAccountsInfo = (\<lambda>addresses. Inr (map (\<lambda>address. Some emptyAccount) addresses))\<rparr>"

definition failingConnection :: Connection where
  "failingConnection =
     \<lparr>getAccountInfo = (\<lambda>address. Inl (Error ''Fetch failed'')),
      getMultipleAccountsInfo = (\<lambda>addresses. Inl (Error ''Fetch failed''))\<rparr>"

definition missingConnection :: Connection where
  "missingConnection =
     \<lparr>getAccountInfo = (\<lambda>address. Inr None),
      getMultipleAccountsInfo =
        (\<lambda>addresses.
           Inr [None,
                Some \<lparr>accountData = None, lamports = 0,
                      owner = ''11111111111111111111111111111111''\<rparr>])\<rparr>"

definition derive :: FindProgramAddress where
  "derive seeds programId = Inr (concat seeds @ programId, 255)"

section \<open>Properties of the World and of Entity\<close>

lemma list_all_sort: "list_all P (sort (cs::string list)) = (\<forall>c\<in>set cs. P c)"
  by (simp add: list_all_iff)

lemma query_scan:
  "query cs w = filter (\<lambda>e. \<forall>c\<in>set cs. hasComponent e c (store w)) (Map_values (entities w))"
  by (simp add: query_def Let_def list_all_sort)

lemma Map_values_set_fresh:
  "map_of m k = None \<Longrightarrow> Map_values (Map_set k v m) = Map_values m @ [v]"
  by (induction m) (auto simp: Map_values_def)

lemma entities_updateQueries: "entities (updateQueries e w) = entities w"
  by (simp add: updateQueries_def)

lemma queryWorld_eval:
  "entities queryWorld = [(''e1'', entity1), (''e2'', entity2)]"
  "cells (store queryWorld) 0 =
     [(''position'', JObject [(''x'', JNumber 0), (''y'', JNumber 0)]), (''renderable'', JBool True)]"
  "cells (store queryWorld) (Suc 0) = [(''position'', JObject [(''x'', JNumber 10), (''y'', JNumber 5)])]"
  by (simp_all add: queryWorld_def createEntity_def Entity_new_def new_Map_def World_new_def
        Store_empty_def updateQueries_def addComponent_def entity1_def entity2_def)

text \<open>
  C2. \<^verbatim>\<open>World.query\<close> returns exactly the entities whose components include every
  requested name, found by one scan of the \<^verbatim>\<open>entities\<close> map at the time of the call and
  listed in the order of that map; the empty request returns every entity; a request
  that names a component no entity has returns the empty list; and an entity created
  under a new id comes last in that order.
\<close>

theorem World_query_semantics:
  "query cs w = filter (\<lambda>e. \<forall>c\<in>set cs. hasComponent e c (store w)) (Map_values (entities w))
   \<and> query [] w = Map_values (entities w)
   \<and> ((\<exists>c\<in>set cs. \<forall>e\<in>set (Map_values (entities w)). \<not> hasComponent e c (store w))
        \<longrightarrow> query cs w = [])
   \<and> (getEntity i w = None \<longrightarrow>
        query [] (snd (createEntity i pk w)) = query [] w @ [fst (createEntity i pk w)])"
proof -
  have all: "\<And>w::'a World. query [] w = Map_values (entities w)"
    by (simp add: query_scan)
  have none: "(\<exists>c\<in>set cs. \<forall>e\<in>set (Map_values (entities w)). \<not> hasComponent e c (store w))
        \<longrightarrow> query cs w = []"
    by (auto simp: query_scan filter_empty_conv)
  have order: "getEntity i w = None \<longrightarrow>
        query [] (snd (createEntity i pk w)) = query [] w @ [fst (createEntity i pk w)]"
    by (simp add: all createEntity_def Entity_new_def new_Map_def getEntity_def Map_get_def
          entities_updateQueries Map_values_set_fresh)
  show ?thesis using query_scan [of cs w] all none order by blast
qed

theorem World_query_semantics_witness:
  "query [''renderable''] queryWorld = [entity1]
   \<and> query [''position''] queryWorld = [entity1, entity2]
   \<and> query [] queryWorld = [entity1, entity2]
   \<and> query [''velocity''] queryWorld = []
   \<and> getEntity ''e3'' queryWorld = None
   \<and> query [] (snd (createEntity ''e3'' ''pk3'' queryWorld))
       = [entity1, entity2, fst (createEntity ''e3'' ''pk3'' queryWorld)]"
  using World_query_semantics [of "[''renderable'']" queryWorld "''e3''" "''pk3''"]
        World_query_semantics [of "[''position'']" queryWorld "''e3''" "''pk3''"]
        World_query_semantics [of "[''velocity'']" queryWorld "''e3''" "''pk3''"]
  by (simp add: queryWorld_eval Map_values_def hasComponent_def Map_has_def getEntity_def
        Map_get_def entity1_def entity2_def)

text \<open>
  C10. The result of \<^verbatim>\<open>World.query\<close> depends only on the set of requested names: two
  request lists with the same names, in any order and with any repetitions, give the
  same sequence of entities.
\<close>

theorem query_request_list_as_set:
  assumes "set cs1 = set cs2"
  shows "query cs1 w = query cs2 w"
proof -
  have "query cs1 w
          = filter (\<lambda>e. \<forall>c\<in>set cs1. hasComponent e c (store w)) (Map_values (entities w))"
    by (rule query_scan)
  also have "\<dots> = filter (\<lambda>e. \<forall>c\<in>set cs2. hasComponent e c (store w)) (Map_values (entities w))"
    using assms by simp
  also have "\<dots> = query cs2 w"
    by (rule query_scan [symmetric])
  finally show ?thesis .
qed

theorem query_request_list_as_set_witness:
  "set [''renderable'', ''position'', ''position''] = set [''position'', ''renderable'']
   \<and> query [''renderable'', ''position'', ''position''] queryWorld
       = query [''position'', ''renderable''] queryWorld
   \<and> query [''position'', ''renderable''] queryWorld = [entity1]"
proof -
  have h: "set [''renderable'', ''position'', ''position''] = set [''position'', ''renderable'']"
    by auto
  have "query [''position'', ''renderable''] queryWorld = [entity1]"
    by (simp add: query_scan queryWorld_eval Map_values_def hasComponent_def Map_has_def
          entity1_def entity2_def)
  then show ?thesis using h query_request_list_as_set [OF h, of queryWorld] by simp
qed

lemma queries_call: "queries w = [] \<Longrightarrow> queries (call c w) = []"
  by (cases c)
     (auto simp: createEntity_def Entity_new_def new_Map_def updateQueries_def removeEntity_def
        removeEntityFromQueries_def addSystem_def split: option.splits prod.splits)

lemma keys_call: "map fst (queries (call c w)) = map fst (queries w)"
  by (cases c)
     (auto simp: createEntity_def Entity_new_def new_Map_def updateQueries_def removeEntity_def
        removeEntityFromQueries_def addSystem_def case_prod_beta comp_def
        split: option.splits prod.splits)

lemma queries_run: "queries (snd sw) = [] \<Longrightarrow> queries (snd (run impl n ts sw)) = []"
proof (induction n arbitrary: ts sw)
  case 0
  then show ?case by simp
next
  case (Suc n)
  obtain s w where sw: "sw = (s, w)" by (cases sw)
  show ?case
  proof (cases ts)
    case Nil
    with Suc.prems show ?thesis by simp
  next
    case (Cons t ts')
    show ?thesis
    proof (cases t)
      case (Call c)
      show ?thesis
      proof (cases "\<exists>dt. c = Update dt")
        case True
        then show ?thesis using Suc Cons Call sw by auto
      next
        case False
        then have "run impl (Suc n) (Call c # ts') (s, w) = run impl n ts' (s, call c w)"
          by (cases c) simp_all
        then show ?thesis using Suc Cons Call sw queries_call [of w c] by simp
      qed
    next
      case (UpdateFrom dt i)
      then show ?thesis using Suc Cons sw by (auto split: prod.splits)
    qed
  qed
qed

text \<open>
  C3. The cache \<^verbatim>\<open>queries\<close> of a World is never filled: \<^verbatim>\<open>query\<close> leaves the World as it
  is, and no public call adds a key to the cache (entity creation and removal only extend
  or prune the entries that exist), so from a new World the cache is empty after any
  sequence of calls of the public methods, whatever the registered systems do and
  however far the sequence has run; and the result of \<^verbatim>\<open>query\<close> is the same whatever the
  cache holds.
\<close>

theorem query_cache_stays_empty:
  "queries (snd (run impl fuel (map Call calls) (s, World_new st))) = []
   \<and> map fst (queries (call c w)) = map fst (queries w)
   \<and> call (Query cs) w = w
   \<and> query cs (w\<lparr>queries := q\<rparr>) = query cs w"
proof -
  have "queries (snd (s, World_new st :: 'a World)) = []"
    by (simp add: World_new_def)
  then have empty: "queries (snd (run impl fuel (map Call calls) (s, World_new st))) = []"
    by (rule queries_run)
  have unread: "query cs (w\<lparr>queries := q\<rparr>) = query cs w"
    by (simp add: query_def)
  show ?thesis using empty keys_call [of c w] unread by simp
qed

theorem query_cache_stays_empty_witness:
  "queries (snd (run spawner 20 (map Call cacheCalls) (0, World_new Store_empty))) = []
   \<and> map fst (entities (snd (run spawner 20 (map Call cacheCalls) (0, World_new Store_empty))))
       = [''spawned0'']"
proof -
  have e: "map fst (entities (snd (run spawner 20 (map Call cacheCalls) (0, World_new Store_empty))))
       = [''spawned0'']"
    by code_simp
  show ?thesis
    using e query_cache_stays_empty [where impl = spawner and fuel = 20 and calls = cacheCalls
        and s = "0::nat" and st = "Store_empty :: JsValue Store" and cs = "[]"
        and c = "Query []" and w = "World_new Store_empty :: JsValue World" and q = "[]"]
    by simp
qed

lemma cells_mutate_other: "a \<noteq> b \<Longrightarrow> cells (mutate a m st) b = cells st b"
  by (cases m) simp_all

lemma cells_mutations_other: "a \<noteq> b \<Longrightarrow> cells (mutations a ms st) b = cells st b"
  unfolding mutations_def
  by (induction ms arbitrary: st) (simp_all add: cells_mutate_other)

text \<open>A constructed entity is allocated in the store, and the store only grows.\<close>

lemma Entity_new_allocated:
  "components (fst (Entity_new i pk st)) < next_free (snd (Entity_new i pk st))"
  by (simp add: Entity_new_def new_Map_def)

lemma next_free_mutate: "next_free (mutate a m st) = next_free st"
  by (cases m) simp_all

lemma next_free_mutations: "next_free (mutations a ms st) = next_free st"
  unfolding mutations_def
  by (induction ms arbitrary: st) (simp_all add: next_free_mutate)

lemma next_free_getComponents: "next_free st < next_free (snd (getComponents e st))"
  by (simp add: getComponents_def new_Map_def)

text \<open>
  The copy matters: a mutation through the entity's own \<^verbatim>\<open>Map\<close> is seen by
  \<^verbatim>\<open>getComponent\<close>.
\<close>

lemma own_Map_mutation_is_seen:
  "getComponent testEntity ''test'' (mutations (components testEntity) [MClear] copyStore) = None"
  by (simp add: testEntity_def copyStore_def Entity_new_def new_Map_def Store_empty_def
        addComponent_def getComponent_def Map_get_def mutations_def)

text \<open>
  C4. For an entity of the store, whatever entries are set, replaced, deleted or cleared
  in the \<^verbatim>\<open>Map\<close> that \<^verbatim>\<open>getComponents()\<close> returned, \<^verbatim>\<open>getComponent\<close> on the entity
  returns what it returned before. (The copy is of the entries: the component values
  themselves are shared, and a change inside a value is not a change of the mapping.)
\<close>

theorem getComponents_defensive_copy:
  assumes "components e < next_free st"
  shows "getComponent e k (mutations (fst (getComponents e st)) ms (snd (getComponents e st)))
           = getComponent e k st"
proof -
  have fresh: "fst (getComponents e st) \<noteq> components e"
    using assms by (simp add: getComponents_def new_Map_def)
  have kept: "cells (snd (getComponents e st)) (components e) = cells st (components e)"
    using assms by (simp add: getComponents_def new_Map_def)
  show ?thesis
    by (simp add: getComponent_def cells_mutations_other [OF fresh] kept)
qed

theorem getComponents_defensive_copy_witness:
  "components testEntity < next_free copyStore
   \<and> getComponent testEntity ''test''
        (mutations (fst (getComponents testEntity copyStore))
           [MSet ''test'' (JObject [(''value'', JNumber 2)]), MDelete ''test'', MClear]
           (snd (getComponents testEntity copyStore)))
       = Some (JObject [(''value'', JNumber 1)])"
proof -
  have h: "components testEntity < next_free copyStore"
    by (simp add: testEntity_def copyStore_def Entity_new_def new_Map_def Store_empty_def
          addComponent_def)
  have v: "getComponent testEntity ''test'' copyStore = Some (JObject [(''value'', JNumber 1)])"
    by (simp add: testEntity_def copyStore_def Entity_new_def new_Map_def Store_empty_def
          addComponent_def getComponent_def Map_get_def)
  show ?thesis
    using h v getComponents_defensive_copy [OF h,
      of "''test''" "[MSet ''test'' (JObject [(''value'', JNumber 2)]), MDelete ''test'', MClear]"]
    by simp
qed

section \<open>Properties of the facade\<close>

lemma no_payer:
  "wallet s = None \<Longrightarrow> activeSessionKeypair s = None \<Longrightarrow>
   getActivePayer s = (Inl (SDKError noActivePayer None), s)"
  by (simp add: getActivePayer_def)

lemma no_payer_createEntity:
  "wallet s = None \<Longrightarrow> activeSessionKeypair s = None \<Longrightarrow>
   sdk_createEntity env port kp comps s = (Inl (SDKError noActivePayer None), s)"
  by (simp add: sdk_createEntity_def no_payer)

lemma no_payer_saveToChain:
  "wallet s = None \<Longrightarrow> activeSessionKeypair s = None \<Longrightarrow>
   saveToChain env port s = (Inl (SDKError noActivePayer None), s)"
  by (simp add: saveToChain_def no_payer)

lemma deactivateSession_fields:
  "wallet (deactivateSession s) = None" "activeSessionKeypair (deactivateSession s) = None"
  by (simp_all add: deactivateSession_def print_def)

lemma session_preferred:
  "fst (getActivePayer (activateSessionKeypair k2 (setPrimaryWallet k1 s))) = Inr k2"
  by (simp add: getActivePayer_def activateSessionKeypair_def setPrimaryWallet_def print_def)

text \<open>
  C1. After \<^verbatim>\<open>setPrimaryWallet(W1)\<close> and then \<^verbatim>\<open>activateSessionKeypair(W2)\<close> the payer
  is \<^verbatim>\<open>W2\<close>, and a facade on which no wallet and no session was ever set raises
  \<^verbatim>\<open>No active payer wallet found. Set a primary wallet or create and activate a session.\<close>
  from \<^verbatim>\<open>createEntity\<close> and \<^verbatim>\<open>saveToChain\<close>. After a following \<^verbatim>\<open>deactivateSession()\<close>
  the specification expects the payer \<^verbatim>\<open>W1\<close>; the code has no payer left and raises the same error:
  \<^verbatim>\<open>activateSessionKeypair\<close> has overwritten the field \<^verbatim>\<open>wallet\<close> and \<^verbatim>\<open>deactivateSession\<close>
  sets it to \<^verbatim>\<open>null\<close>.
\<close>

theorem payer_after_deactivateSession:
  "fst (getActivePayer (activateSessionKeypair walletW2 (setPrimaryWallet walletW1 freshSDK)))
     = Inr walletW2
   \<and> fst (getActivePayer
            (deactivateSession (activateSessionKeypair walletW2 (setPrimaryWallet walletW1 freshSDK))))
     = Inl (SDKError noActivePayer None)
   \<and> fst (sdk_createEntity plainEnv acceptingPort entityAccount1 []
            (deactivateSession (activateSessionKeypair walletW2 (setPrimaryWallet walletW1 freshSDK))))
     = Inl (SDKError noActivePayer None)
   \<and> fst (saveToChain plainEnv acceptingPort
            (deactivateSession (activateSessionKeypair walletW2 (setPrimaryWallet walletW1 freshSDK))))
     = Inl (SDKError noActivePayer None)
   \<and> fst (sdk_createEntity plainEnv acceptingPort entityAccount1 [] freshSDK)
     = Inl (SDKError noActivePayer None)
   \<and> fst (saveToChain plainEnv acceptingPort freshSDK) = Inl (SDKError noActivePayer None)
   \<and> noActivePayer
     = ''No active payer wallet found. Set a primary wallet or create and activate a session.''"
  by (simp add: session_preferred no_payer no_payer_createEntity no_payer_saveToChain
        deactivateSession_fields freshSDK_def RushSDK_new_def noActivePayer_def)

section \<open>Properties of the validator and of \<^verbatim>\<open>processComponent\<close>\<close>

lemma validateProperties_first_error:
  assumes pre: "\<forall>(n, sch)\<in>set pre. propertyIn n kvs \<longrightarrow>
                  snd (validateComponentDataAgainstSchema rx (getProperty kvs n) sch
                         (path @ ''.'' @ n)) = None"
      and v: "propertyIn k kvs"
      and e: "snd (validateComponentDataAgainstSchema rx (getProperty kvs k) sch
                     (path @ ''.'' @ k)) = Some err"
  shows "snd (validateProperties rx kvs (pre @ (k, sch) # rest) path) = Some err"
  using pre
proof (induction pre)
  case Nil
  obtain out where
    "validateComponentDataAgainstSchema rx (getProperty kvs k) sch (path @ ''.'' @ k) = (out, Some err)"
    using e
    by (cases "validateComponentDataAgainstSchema rx (getProperty kvs k) sch (path @ ''.'' @ k)") simp
  then show ?case using v by simp
next
  case (Cons p pre)
  obtain n s where p: "p = (n, s)" by (cases p)
  show ?case
  proof (cases "propertyIn n kvs")
    case False
    then show ?thesis using Cons p by simp
  next
    case True
    then have "snd (validateComponentDataAgainstSchema rx (getProperty kvs n) s (path @ ''.'' @ n)) = None"
      using Cons.prems p by auto
    then obtain out where
      "validateComponentDataAgainstSchema rx (getProperty kvs n) s (path @ ''.'' @ n) = (out, None)"
      by (cases "validateComponentDataAgainstSchema rx (getProperty kvs n) s (path @ ''.'' @ n)") simp
    then show ?thesis using Cons p True by (auto split: prod.splits)
  qed
qed

lemma typeCheck_number_string:
  \<open>typeCheck (JString str) (Some (TypeName ''number'')) path =
     Some (SDKError (''Data for component "'' @ path @
             ''" has incorrect type. Expected number, got string.'') None)\<close>
  by (simp add: typeCheck_def incorrectType_def expectedText_def)

lemma requiredCheck_present:
  assumes "\<forall>r\<in>set (case req of None \<Rightarrow> [] | Some rs \<Rightarrow> rs). propertyIn r kvs"
  shows "requiredCheck kvs req path = None"
proof -
  have "filter (\<lambda>r. \<not> propertyIn r kvs) (case req of None \<Rightarrow> [] | Some rs \<Rightarrow> rs) = []"
    using assms by (simp add: filter_empty_conv)
  then show ?thesis by (simp add: requiredCheck_def)
qed

text \<open>
  C5 as stated fails: a \<^verbatim>\<open>Position\<close> object schema whose properties \<^verbatim>\<open>x\<close> and \<^verbatim>\<open>y\<close> have
  type number may require a property that the data \<^verbatim>\<open>{x: "wrong", y: 20}\<close> lacks, or
  declare \<^verbatim>\<open>y\<close> before \<^verbatim>\<open>x\<close> with a bound that 20 violates; the required names are checked
  first and the properties in the order of their declaration, so another error is raised
  before \<^verbatim>\<open>x\<close> is looked at.
\<close>

theorem type_mismatch_message_counterexample:
  \<open>fst (processComponent plainEnv ''testEntity1'' ''Position''
          (JObject [(''x'', JString ''wrong''), (''y'', JNumber 20)]) requiresZSDK)
     = Inl (SDKError ''Missing required property "z" for component "Position".'' None)
   \<and> fst (processComponent plainEnv ''testEntity1'' ''Position''
          (JObject [(''x'', JString ''wrong''), (''y'', JNumber 20)]) boundedYSDK)
     = Inl (SDKError ''Component "Position.y" value 20 is less than minimum 100.'' None)
   \<and> fst (processComponent plainEnv ''testEntity1'' ''Position''
          (JObject [(''x'', JString ''wrong''), (''y'', JNumber 20)]) requiresZSDK)
     \<noteq> Inl (SDKError ''Data for component "Position.x" has incorrect type. Expected number, got string.'' None)
   \<and> fst (processComponent plainEnv ''testEntity1'' ''Position''
          (JObject [(''x'', JString ''wrong''), (''y'', JNumber 20)]) boundedYSDK)
     \<noteq> Inl (SDKError ''Data for component "Position.x" has incorrect type. Expected number, got string.'' None)\<close>
proof -
  have z: \<open>fst (processComponent plainEnv ''testEntity1'' ''Position''
          (JObject [(''x'', JString ''wrong''), (''y'', JNumber 20)]) requiresZSDK)
     = Inl (SDKError ''Missing required property "z" for component "Position".'' None)\<close>
    by code_simp
  have y: \<open>fst (processComponent plainEnv ''testEntity1'' ''Position''
          (JObject [(''x'', JString ''wrong''), (''y'', JNumber 20)]) boundedYSDK)
     = Inl (SDKError ''Component "Position.y" value 20 is less than minimum 100.'' None)\<close>
    by code_simp
  show ?thesis
    unfolding z y by (simp add: SDKError_def)
qed

text \<open>
  C5, amended. With a blueprint whose \<^verbatim>\<open>Position\<close> schema is an object schema with a
  property \<^verbatim>\<open>x\<close> of type number, whose required names are among \<^verbatim>\<open>x\<close> and \<^verbatim>\<open>y\<close>, and in
  which a property declared before \<^verbatim>\<open>x\<close> is absent from the data (and not a name that
  every object inherits) or is \<^verbatim>\<open>y\<close> with a schema that accepts 20, \<^verbatim>\<open>processComponent\<close> on
  the data \<^verbatim>\<open>{x: "wrong", y: 20}\<close> raises an \<^verbatim>\<open>SDKError\<close> with the message
  \<^verbatim>\<open>Data for component "Position.x" has incorrect type. Expected number, got string.\<close>
\<close>

theorem type_mismatch_message:
  assumes bp: "blueprint s = Some bp"
      and schemas: "componentSchemas bp = Some schemas"
      and position: "map_of schemas ''Position'' = Some schema"
      and object: "schemaType schema = Some (TypeName ''object'')"
      and props: "properties schema = Some (pre @ (''x'', sx) # rest)"
      and pre: "\<forall>(n, sch)\<in>set pre. n \<noteq> ''x'' \<and> \<not> List.member Object_prototype n \<and>
                 (n = ''y'' \<longrightarrow> snd (validateComponentDataAgainstSchema (RegExp_test env) (JNumber 20) sch
                                       ''Position.y'') = None)"
      and number: "schemaType sx = Some (TypeName ''number'')"
      and req: "\<forall>r\<in>set (case required schema of None \<Rightarrow> [] | Some rs \<Rightarrow> rs). r = ''x'' \<or> r = ''y''"
  shows \<open>fst (processComponent env entityId ''Position''
                (JObject [(''x'', JString ''wrong''), (''y'', JNumber 20)]) s)
          = Inl (SDKError ''Data for component "Position.x" has incorrect type. Expected number, got string.'' None)\<close>
proof -
  define kvs where "kvs = [(''x'', JString ''wrong''), (''y'', JNumber 20)]"
  define err where
    \<open>err = SDKError ''Data for component "Position.x" has incorrect type. Expected number, got string.'' None\<close>
  define rx where "rx = RegExp_test env"
  have inx: "propertyIn ''x'' kvs" and getx: "getProperty kvs ''x'' = JString ''wrong''"
    and gety: "getProperty kvs ''y'' = JNumber 20"
    by (simp_all add: propertyIn_def Map_has_def getProperty_def kvs_def)
  have x: "snd (validateComponentDataAgainstSchema rx (getProperty kvs ''x'') sx
                  (''Position'' @ ''.'' @ ''x'')) = Some err"
    using number
    by (simp add: getx validateComponentDataAgainstSchema.simps typeCheck_number_string err_def)
  have before: "\<forall>(n, sch)\<in>set pre. propertyIn n kvs \<longrightarrow>
          snd (validateComponentDataAgainstSchema rx (getProperty kvs n) sch
                 (''Position'' @ ''.'' @ n)) = None"
  proof (intro ballI, clarify)
    fix n sch
    assume mem: "(n, sch) \<in> set pre" and inn: "propertyIn n kvs"
    have n: "n \<noteq> ''x''" "\<not> List.member Object_prototype n"
      using pre mem by auto
    then have "n = ''y''"
      using inn by (auto simp: propertyIn_def Map_has_def kvs_def split: if_splits)
    then show "snd (validateComponentDataAgainstSchema rx (getProperty kvs n) sch
                      (''Position'' @ ''.'' @ n)) = None"
      using pre mem gety by (auto simp: rx_def)
  qed
  have "snd (validateProperties rx kvs (pre @ (''x'', sx) # rest) ''Position'') = Some err"
    by (rule validateProperties_first_error [OF before inx x])
  then obtain out where loop:
    "validateProperties rx kvs (pre @ (''x'', sx) # rest) ''Position'' = (out, Some err)"
    by (cases "validateProperties rx kvs (pre @ (''x'', sx) # rest) ''Position''") simp
  have required: "requiredCheck kvs (required schema) ''Position'' = None"
    using req by (intro requiredCheck_present) (auto simp: propertyIn_def Map_has_def kvs_def)
  have top: "typeCheck (JObject kvs) (schemaType schema) ''Position'' = None"
    using object by (simp add: typeCheck_def)
  have struct: "validateStructure rx (JObject kvs) schema ''Position'' = (out, Some err)"
    using object props required loop by (simp add: validateStructure.simps)
  have whole: "validateComponentDataAgainstSchema rx (JObject kvs) schema ''Position'' = (out, Some err)"
    using top struct by (simp add: validateComponentDataAgainstSchema.simps)
  have declared: "propertyIn ''Position'' schemas" "schemaOf schemas ''Position'' = schema"
    using position by (simp_all add: propertyIn_def Map_has_def schemaOf_def)
  have "blueprintValidation env (blueprint s) entityId ''Position'' (JObject kvs) = (out, Some err)"
    using bp schemas declared whole by (simp add: blueprintValidation_def rx_def)
  then have "fst (processComponent env entityId ''Position'' (JObject kvs) s) = Inl err"
    by (simp add: processComponent_def)
  then show ?thesis by (simp add: kvs_def err_def)
qed

text \<open>
  The validator on the cases of the facade's tests (test/rush-sdk-blueprint.test.ts), and
  on a component type that the schemas only inherit.
\<close>

lemma validator_on_test_cases:
  \<open>snd (blueprintValidation plainEnv (Some sampleBlueprint) ''e1'' ''NonExistentComponent'' (JObject []))
    = Some (SDKError ''Component type "NonExistentComponent" is not defined in the blueprint's componentSchemas.'' None)\<close>
  \<open>snd (blueprintValidation plainEnv (Some sampleBlueprint) ''e1'' ''Position''
          (JObject [(''x'', JNumber 10)]))
    = Some (SDKError ''Missing required property "y" for component "Position".'' None)\<close>
  \<open>snd (blueprintValidation plainEnv (Some sampleBlueprint) ''e1'' ''Health''
          (JObject [(''current'', JNumber (- 10)), (''max'', JNumber 100)]))
    = Some (SDKError ''Component "Health.current" value -10 is less than minimum 0.'' None)\<close>
  \<open>snd (blueprintValidation plainEnv (Some sampleBlueprint) ''e1'' ''Name'' (JString []))
    = Some (SDKError ''Component "Name" string length 0 is less than minimum 1.'' None)\<close>
  \<open>snd (blueprintValidation plainEnv (Some sampleBlueprint) ''e1'' ''Inventory''
          (JArray [JString ''sword'', JNumber 123]))
    = Some (SDKError ''Data for component "Inventory[1]" has incorrect type. Expected string, got number.'' None)\<close>
  \<open>blueprintValidation plainEnv (Some sampleBlueprint) ''e1'' ''Position''
      (JObject [(''x'', JNumber 1), (''y'', JNumber 2), (''extra'', JBool True)])
    = ([ConsoleWarn ''Warning: Component "Position" has extra property "extra" not defined in blueprint schema.'',
        ConsoleLog ''Component "Position" for entity "e1" validated successfully against blueprint. Data: {"x":1,"y":2,"extra":true}''],
       None)\<close>
  \<open>snd (blueprintValidation plainEnv (Some sampleBlueprint) ''e1'' ''toString'' (JNumber 1)) = None\<close>
  by code_simp+

lemma sampleBlueprint_Position:
  "blueprint blueprintSDK = Some sampleBlueprint"
  "componentSchemas sampleBlueprint = Some sampleSchemas"
  "map_of sampleSchemas ''Position'' = Some PositionSchema"
  by (simp_all add: blueprintSDK_def RushSDK_new_def sampleBlueprint_def sampleSchemas_def)

theorem type_mismatch_message_witness:
  \<open>fst (processComponent plainEnv ''testEntity1'' ''Position''
          (JObject [(''x'', JString ''wrong''), (''y'', JNumber 20)]) blueprintSDK)
   = Inl (SDKError ''Data for component "Position.x" has incorrect type. Expected number, got string.'' None)\<close>
proof -
  have props: "properties PositionSchema = Some ([] @ (''x'', typed ''number'') #
      [(''y'', typed ''number''),
       (''z'', ComponentSchema (Some (TypeName ''number'')) (Some True) None None None
                 None None None None None)])"
    by (simp add: PositionSchema_def)
  show ?thesis
    by (rule type_mismatch_message [OF sampleBlueprint_Position _ props])
       (simp_all add: PositionSchema_def typed_def)
qed

lemma entities_processComponent:
  "entities (world (snd (processComponent env entityId componentType componentData s))) = entities (world s)"
  by (simp add: processComponent_def print_def split: prod.splits option.splits)

lemma blueprintValidation_checked:
  assumes "componentSchemas b = Some schemas"
      and "propertyIn componentType schemas"
      and "validateComponentDataAgainstSchema (RegExp_test env) componentData
             (schemaOf schemas componentType) componentType = (out, None)"
  shows "JSON_stringify env componentData = Inl e \<Longrightarrow>
           blueprintValidation env (Some b) entityId componentType componentData = (out, Some e)"
    and "JSON_stringify env componentData = Inr text \<Longrightarrow>
           snd (blueprintValidation env (Some b) entityId componentType componentData) = None"
  using assms by (simp_all add: blueprintValidation_def)

lemma blueprintValidation_unchecked:
  "blueprintValidation env None entityId componentType componentData = ([], None)"
  "componentSchemas b = None \<Longrightarrow>
     snd (blueprintValidation env (Some b) entityId componentType componentData) = None"
  by (simp_all add: blueprintValidation_def)





section \<open>Properties of \<^verbatim>\<open>createEntity\<close>\<close>

lemma map_of_Map_set: "map_of (Map_set k v m) = (map_of m)(k \<mapsto> v)"
  by (induction m) auto

lemma map_of_attach: "map_of (attach m comps) = map_of m ++ map_of (rev comps)"
  unfolding attach_def
  by (induction comps arbitrary: m) (auto simp: map_of_Map_set map_add_def fun_eq_iff split: option.splits)

lemma processComponent_attaches:
  assumes "getEntity entityId (world s) = Some entity"
      and "snd (blueprintValidation env (blueprint s) entityId t d) = None"
  shows "fst (processComponent env entityId t d s) = Inr ()"
    and "world (snd (processComponent env entityId t d s))
           = (world s)\<lparr>store := addComponent entity t d (store (world s))\<rparr>"
    and "blueprint (snd (processComponent env entityId t d s)) = blueprint s"
proof -
  obtain out where "blueprintValidation env (blueprint s) entityId t d = (out, None)"
    using assms(2) by (cases "blueprintValidation env (blueprint s) entityId t d") simp
  then show "fst (processComponent env entityId t d s) = Inr ()"
    and "world (snd (processComponent env entityId t d s))
           = (world s)\<lparr>store := addComponent entity t d (store (world s))\<rparr>"
    and "blueprint (snd (processComponent env entityId t d s)) = blueprint s"
    using assms(1) by (simp_all add: processComponent_def print_def)
qed

lemma processComponents_attach:
  assumes "getEntity entityId (world s) = Some entity"
      and "\<forall>(t, d)\<in>set comps. snd (blueprintValidation env (blueprint s) entityId t d) = None"
  shows "fst (processComponents env entityId comps s) = Inr ()
         \<and> entities (world (snd (processComponents env entityId comps s))) = entities (world s)
         \<and> next_free (store (world (snd (processComponents env entityId comps s))))
             = next_free (store (world s))
         \<and> cells (store (world (snd (processComponents env entityId comps s)))) (components entity)
             = attach (cells (store (world s)) (components entity)) comps"
  using assms
proof (induction comps arbitrary: s)
  case Nil
  then show ?case by (simp add: attach_def)
next
  case (Cons c comps)
  obtain t d where c: "c = (t, d)" by (cases c)
  obtain r s' where step: "processComponent env entityId t d s = (r, s')"
    by (cases "processComponent env entityId t d s")
  have valid: "snd (blueprintValidation env (blueprint s) entityId t d) = None"
    using Cons.prems(2) c by simp
  have r: "r = Inr ()"
    using processComponent_attaches(1) [OF Cons.prems(1) valid] step by simp
  have w: "world s' = (world s)\<lparr>store := addComponent entity t d (store (world s))\<rparr>"
    using processComponent_attaches(2) [OF Cons.prems(1) valid] step by simp
  have b: "blueprint s' = blueprint s"
    using processComponent_attaches(3) [OF Cons.prems(1) valid] step by simp
  have "getEntity entityId (world s') = Some entity"
    using Cons.prems(1) w by (simp add: getEntity_def)
  moreover have "\<forall>(t, d)\<in>set comps. snd (blueprintValidation env (blueprint s') entityId t d) = None"
    using Cons.prems(2) b by simp
  ultimately have rest:
    "fst (processComponents env entityId comps s') = Inr ()
     \<and> entities (world (snd (processComponents env entityId comps s'))) = entities (world s')
     \<and> next_free (store (world (snd (processComponents env entityId comps s'))))
         = next_free (store (world s'))
     \<and> cells (store (world (snd (processComponents env entityId comps s')))) (components entity)
         = attach (cells (store (world s')) (components entity)) comps"
    by (rule Cons.IH)
  show ?case
    using c step r rest w by (simp add: addComponent_def attach_def)
qed

lemma entities_processComponents:
  "entities (world (snd (processComponents env entityId comps s))) = entities (world s)"
proof (induction comps arbitrary: s)
  case Nil
  show ?case by simp
next
  case (Cons c comps)
  obtain t d where c: "c = (t, d)" by (cases c)
  obtain r s' where step: "processComponent env entityId t d s = (r, s')"
    by (cases "processComponent env entityId t d s")
  have kept: "entities (world s') = entities (world s)"
    using entities_processComponent [of env entityId t d s] step by simp
  show ?case
  proof (cases r)
    case (Inl e)
    then show ?thesis using c step kept by simp
  next
    case (Inr u)
    then show ?thesis using c step kept Cons.IH [of s'] by simp
  qed
qed

text \<open>
  Whatever ends a call of \<^verbatim>\<open>createEntity\<close> that found a payer (a component that fails the
  check, a serialization that throws, a chain that rejects or accepts), the World it
  leaves holds the entity it created.
\<close>

lemma createEntity_keeps_entity:
  assumes payer: "fst (getActivePayer s) = Inr payer"
  shows "getEntity (publicKey entityAccount)
           (world (snd (sdk_createEntity env port entityAccount comps s)))
         = Some (fst (createEntity (publicKey entityAccount) (publicKey entityAccount) (world s)))"
proof -
  define i where "i = publicKey entityAccount"
  obtain s1 where p: "getActivePayer s = (Inr payer, s1)"
    using payer by (cases "getActivePayer s") simp
  have s1: "world s1 = world s"
    using p by (auto simp: getActivePayer_def print_def split: option.splits)
  obtain entity w where cr: "createEntity i i (world s1) = (entity, w)"
    by (cases "createEntity i i (world s1)")
  have w: "entities w = Map_set i entity (entities (world s))"
    using cr s1 by (auto simp: createEntity_def Entity_new_def new_Map_def updateQueries_def)
  obtain r s2 where pc: "processComponents env i comps (s1\<lparr>world := w\<rparr>) = (r, s2)"
    by (cases "processComponents env i comps (s1\<lparr>world := w\<rparr>)")
  have kept: "entities (world s2) = entities w"
    using entities_processComponents [of env i comps "s1\<lparr>world := w\<rparr>"] pc by simp
  obtain r' st where ser: "serializeEntityData env entity (store (world s2)) = (r', st)"
    by (cases "serializeEntityData env entity (store (world s2))")
  have "entities (world (snd (sdk_createEntity env port entityAccount comps s))) = entities w"
    using p cr pc ser kept
    by (simp add: sdk_createEntity_def i_def [symmetric] Let_def print_def split: sum.splits)
  moreover have "fst (createEntity i i (world s)) = entity"
    using cr s1 by simp
  ultimately show ?thesis
    using w by (simp add: getEntity_def Map_get_def map_of_Map_set i_def [symmetric])
qed

text \<open>
  C9. \<^verbatim>\<open>createEntity\<close> of the facade, called with a payer and with components that pass
  the check against the blueprint, submits to the chain the serialized entity with all
  its components attached; when that submission fails, the call raises the \<^verbatim>\<open>SDKError\<close>
  \<^verbatim>\<open>Failed to save entity <id> to chain during creation.\<close> with the failure as its cause, and
  the World it leaves still holds the new entity under its id, with its components.
\<close>

theorem createEntity_not_rolled_back:
  assumes payer: "fst (getActivePayer s) = Inr payer"
      and valid: "\<forall>(t, d)\<in>set comps.
                    snd (blueprintValidation env (blueprint s) (publicKey entityAccount) t d) = None"
      and serialized: "JSON_stringify env
                         (JObject [(''id'', JString (publicKey entityAccount)),
                                   (''owner'', JString (publicKey entityAccount)),
                                   (''components'', JObject (attach [] comps))])
                       = Inr (Some serializedEntityData)"
      and chain: "port_createEntity port serializedEntityData payer ''default_world'' = Inl error"
  shows "fst (sdk_createEntity env port entityAccount comps s)
           = Inl (SDKError (''Failed to save entity '' @ publicKey entityAccount @
                            '' to chain during creation.'') (Some error))
         \<and> getEntity (publicKey entityAccount) (world (snd (sdk_createEntity env port entityAccount comps s)))
             = Some (fst (createEntity (publicKey entityAccount) (publicKey entityAccount) (world s)))
         \<and> (\<forall>k. getComponent
                  (fst (createEntity (publicKey entityAccount) (publicKey entityAccount) (world s))) k
                  (store (world (snd (sdk_createEntity env port entityAccount comps s))))
                = map_of (rev comps) k)"
proof -
  define i where "i = publicKey entityAccount"
  obtain s1 where p: "getActivePayer s = (Inr payer, s1)"
    using payer by (cases "getActivePayer s") simp
  have s1: "world s1 = world s" "blueprint s1 = blueprint s"
    using p by (auto simp: getActivePayer_def print_def split: option.splits)
  obtain entity w where cr: "createEntity i i (world s1) = (entity, w)"
    by (cases "createEntity i i (world s1)")
  have entity: "components entity = next_free (store (world s))"
    and w: "entities w = Map_set i entity (entities (world s))"
           "next_free (store w) = Suc (next_free (store (world s)))"
           "cells (store w) (components entity) = []"
    using cr s1 by (auto simp: createEntity_def Entity_new_def new_Map_def updateQueries_def)
  let ?s2 = "s1\<lparr>world := w\<rparr>"
  have found: "getEntity i (world ?s2) = Some entity"
    using w by (simp add: getEntity_def Map_get_def map_of_Map_set)
  have valid2: "\<forall>(t, d)\<in>set comps. snd (blueprintValidation env (blueprint ?s2) i t d) = None"
    using valid s1 by (simp add: i_def)
  obtain r s3 where pc: "processComponents env i comps ?s2 = (r, s3)"
    by (cases "processComponents env i comps ?s2")
  have att: "r = Inr ()" "entities (world s3) = entities w"
            "next_free (store (world s3)) = next_free (store w)"
            "cells (store (world s3)) (components entity) = attach [] comps"
    using processComponents_attach [OF found valid2] pc w by simp_all
  obtain r' st where ser: "serializeEntityData env entity (store (world s3)) = (r', st)"
    by (cases "serializeEntityData env entity (store (world s3))")
  have ids: "getId entity = i" "getPublicKey entity = i"
    using cr by (auto simp: createEntity_def Entity_new_def new_Map_def getId_def getPublicKey_def)
  have buf: "r' = Inr serializedEntityData"
    and st: "cells st (components entity) = attach [] comps"
    using ser att entity w ids serialized
    by (auto simp: serializeEntityData_def getComponents_def new_Map_def i_def [symmetric])
  have res: "sdk_createEntity env port entityAccount comps s
               = (Inl (SDKError (''Failed to save entity '' @ i @ '' to chain during creation.'') (Some error)),
                  s3\<lparr>world := (world s3)\<lparr>store := st\<rparr>\<rparr>)"
    using p cr pc att(1) ser buf chain
    by (simp add: sdk_createEntity_def i_def [symmetric] Let_def)
  have e: "fst (createEntity i i (world s)) = entity"
    using cr s1 by simp
  show ?thesis
    unfolding i_def [symmetric] res e
    using att(2) w(1) st
    by (simp add: getEntity_def Map_get_def map_of_Map_set getComponent_def map_of_attach)
qed

theorem createEntity_not_rolled_back_witness:
  "getEntity ''E1'' (world (setPrimaryWallet walletW1 freshSDK)) = None
   \<and> fst (sdk_createEntity plainEnv rejectingPort entityAccount1
            [(''position'', JObject [(''x'', JNumber 1), (''y'', JNumber 1)])]
            (setPrimaryWallet walletW1 freshSDK))
       = Inl (SDKError ''Failed to save entity E1 to chain during creation.''
                (Some (Error ''Failed to create entity: Transaction simulation failed'')))
   \<and> getEntity ''E1''
        (world (snd (sdk_createEntity plainEnv rejectingPort entityAccount1
                       [(''position'', JObject [(''x'', JNumber 1), (''y'', JNumber 1)])]
                       (setPrimaryWallet walletW1 freshSDK))))
       = Some \<lparr>entity_id = ''E1'', entity_publicKey = ''E1'', components = 0\<rparr>
   \<and> getComponent \<lparr>entity_id = ''E1'', entity_publicKey = ''E1'', components = 0\<rparr> ''position''
        (store (world (snd (sdk_createEntity plainEnv rejectingPort entityAccount1
                              [(''position'', JObject [(''x'', JNumber 1), (''y'', JNumber 1)])]
                              (setPrimaryWallet walletW1 freshSDK)))))
       = Some (JObject [(''x'', JNumber 1), (''y'', JNumber 1)])"
proof -
  let ?s = "setPrimaryWallet walletW1 freshSDK"
  let ?comps = "[(''position'', JObject [(''x'', JNumber 1), (''y'', JNumber 1)])]"
  have payer: "fst (getActivePayer ?s) = Inr walletW1"
    by (simp add: getActivePayer_def setPrimaryWallet_def print_def freshSDK_def RushSDK_new_def)
  have valid: "\<forall>(t, d)\<in>set ?comps.
                 snd (blueprintValidation plainEnv (blueprint ?s) (publicKey entityAccount1) t d) = None"
    by (simp add: blueprintValidation_def setPrimaryWallet_def print_def freshSDK_def RushSDK_new_def)
  have serialized: \<open>JSON_stringify plainEnv
                      (JObject [(''id'', JString (publicKey entityAccount1)),
                                (''owner'', JString (publicKey entityAccount1)),
                                (''components'', JObject (attach [] ?comps))])
                    = Inr (Some ''{"id":"E1","owner":"E1","components":{"position":{"x":1,"y":1}}}'')\<close>
    by code_simp
  have chain: \<open>port_createEntity rejectingPort
                 ''{"id":"E1","owner":"E1","components":{"position":{"x":1,"y":1}}}''
                 walletW1 ''default_world''
               = Inl (Error ''Failed to create entity: Transaction simulation failed'')\<close>
    by (simp add: rejectingPort_def)
  have before: "getEntity ''E1'' (world ?s) = None"
    by (simp add: getEntity_def Map_get_def setPrimaryWallet_def print_def freshSDK_def
          RushSDK_new_def World_new_def)
  have entity: "fst (createEntity (publicKey entityAccount1) (publicKey entityAccount1) (world ?s))
                  = \<lparr>entity_id = ''E1'', entity_publicKey = ''E1'', components = 0\<rparr>"
    by (simp add: createEntity_def Entity_new_def new_Map_def setPrimaryWallet_def print_def
          freshSDK_def RushSDK_new_def World_new_def Store_empty_def entityAccount1_def)
  show ?thesis
    using before createEntity_not_rolled_back [OF payer valid serialized chain] entity
    by (simp add: entityAccount1_def)
qed

section \<open>Properties of the storage adapters\<close>

text \<open>
  C8 as stated fails: on a node where the requested account exists and holds no bytes,
  \<^verbatim>\<open>getData\<close> and \<^verbatim>\<open>getMultipleAccounts\<close> of storage/SolanaStorageAdapter.ts return the
  empty \<^verbatim>\<open>Buffer\<close>, not an absent value.
\<close>

theorem permissive_reads_empty_payload_counterexample:
  "getAccountInfo emptyPayloadConnection ''Acc1'' = Inr (Some emptyAccount)
   \<and> accountData emptyAccount = Some []
   \<and> snd (getData emptyPayloadConnection ''Acc1'') = Inr (Some [])
   \<and> snd (getData emptyPayloadConnection ''Acc1'') \<noteq> Inr None
   \<and> snd (getMultipleAccounts emptyPayloadConnection [''Acc1'', ''Acc2'']) = Inr [Some [], Some []]
   \<and> snd (getMultipleAccounts emptyPayloadConnection [''Acc1'', ''Acc2'']) \<noteq> Inr [None, None]"
  by (simp add: getData_def getMultipleAccounts_def dataOrNull_def emptyPayloadConnection_def
        emptyAccount_def)

text \<open>
  C8, amended. \<^verbatim>\<open>getData\<close> and \<^verbatim>\<open>getMultipleAccounts\<close> never raise. \<^verbatim>\<open>getData\<close> returns an
  absent value when the request fails, when no account is found and when the account has
  no \<^verbatim>\<open>data\<close>; it returns the account's \<^verbatim>\<open>Buffer\<close> otherwise, whatever its length.
  \<^verbatim>\<open>getMultipleAccounts\<close> returns as many absent values as addresses were requested when
  the request fails, and otherwise, for each account of the answer, its \<^verbatim>\<open>Buffer\<close> or an
  absent value by the same rule.
\<close>

theorem permissive_reads:
  "(case getAccountInfo conn address of
      Inl error \<Rightarrow> snd (getData conn address) = Inr None
    | Inr None \<Rightarrow> snd (getData conn address) = Inr None
    | Inr (Some info) \<Rightarrow>
        (case accountData info of
           None \<Rightarrow> snd (getData conn address) = Inr None
         | Some d \<Rightarrow> snd (getData conn address) = Inr (Some d)))
   \<and> (case getMultipleAccountsInfo conn addresses of
        Inl error \<Rightarrow>
          snd (getMultipleAccounts conn addresses) = Inr (replicate (length addresses) None)
      | Inr accountsInfo \<Rightarrow>
          snd (getMultipleAccounts conn addresses) = Inr (map dataOrNull accountsInfo))
   \<and> (\<forall>e. snd (getData conn address) \<noteq> Inl e)
   \<and> (\<forall>e. snd (getMultipleAccounts conn addresses) \<noteq> Inl e)"
proof -
  have single: "(case getAccountInfo conn address of
      Inl error \<Rightarrow> snd (getData conn address) = Inr None
    | Inr None \<Rightarrow> snd (getData conn address) = Inr None
    | Inr (Some info) \<Rightarrow>
        (case accountData info of
           None \<Rightarrow> snd (getData conn address) = Inr None
         | Some d \<Rightarrow> snd (getData conn address) = Inr (Some d)))"
    by (simp add: getData_def dataOrNull_def split: sum.splits option.splits)
  have batch: "(case getMultipleAccountsInfo conn addresses of
        Inl error \<Rightarrow>
          snd (getMultipleAccounts conn addresses) = Inr (replicate (length addresses) None)
      | Inr accountsInfo \<Rightarrow>
          snd (getMultipleAccounts conn addresses) = Inr (map dataOrNull accountsInfo))"
    by (simp add: getMultipleAccounts_def split: sum.splits)
  have quiet1: "\<forall>e. snd (getData conn address) \<noteq> Inl e"
    by (simp add: getData_def split: sum.splits)
  have quiet2: "\<forall>e. snd (getMultipleAccounts conn addresses) \<noteq> Inl e"
    by (simp add: getMultipleAccounts_def split: sum.splits)
  show ?thesis using single batch quiet1 quiet2 by blast
qed

theorem permissive_reads_witness:
  "snd (getData failingConnection ''Acc1'') = Inr None
   \<and> snd (getData missingConnection ''Acc1'') = Inr None
   \<and> snd (getMultipleAccounts failingConnection [''Acc1'', ''Acc2'', ''Acc3'']) = Inr [None, None, None]
   \<and> snd (getMultipleAccounts missingConnection [''Acc1'', ''Acc2'']) = Inr [None, None]"
  using permissive_reads [of failingConnection "''Acc1''" "[''Acc1'', ''Acc2'', ''Acc3'']"]
        permissive_reads [of missingConnection "''Acc1''" "[''Acc1'', ''Acc2'']"]
  by (simp add: failingConnection_def missingConnection_def dataOrNull_def numeral_3_eq_3)

lemma collectData_Some:
  "None \<notin> set (map dataOrNull infos) \<Longrightarrow>
   \<exists>ds. collectData addresses i infos = Inr ds \<and> map Some ds = map dataOrNull infos"
proof (induction infos arbitrary: i)
  case Nil
  then show ?case by simp
next
  case (Cons a infos)
  then obtain d where d: "dataOrNull a = Some d" by (cases "dataOrNull a") auto
  from Cons obtain ds where "collectData addresses (Suc i) infos = Inr ds"
    and "map Some ds = map dataOrNull infos"
    by (metis list.set_intros(2) list.simps(9))
  then show ?case using d by simp
qed

lemma collectData_None:
  "None \<in> set (map dataOrNull infos) \<Longrightarrow> \<exists>e. collectData addresses i infos = Inl e"
proof (induction infos arbitrary: i)
  case Nil
  then show ?case by simp
next
  case (Cons a infos)
  show ?case
  proof (cases "dataOrNull a")
    case None
    then show ?thesis by simp
  next
    case (Some d)
    then have "None \<in> set (map dataOrNull infos)" using Cons.prems by auto
    then obtain e where "collectData addresses (Suc i) infos = Inl e"
      using Cons.IH by blast
    then show ?thesis using Some by simp
  qed
qed

lemma raises_SolanaStorageError [simp]: "raises code (Inl (SolanaStorageError msg code))"
  by (simp add: raises_def SolanaStorageError_def)

text \<open>
  C7 as stated fails: on a node where the requested account exists and holds no bytes,
  the three reads of the adapter with \<^verbatim>\<open>SolanaStorageError\<close> return the empty \<^verbatim>\<open>Buffer\<close> and
  raise nothing.
\<close>

theorem strict_reads_empty_payload_counterexample:
  "getAccountInfo emptyPayloadConnection ''Acc1'' = Inr (Some emptyAccount)
   \<and> accountData emptyAccount = Some []
   \<and> snd (getData_strict emptyPayloadConnection ''Acc1'') = Inr (Some [])
   \<and> \<not> raises ''DATA_FETCH_ERROR'' (snd (getData_strict emptyPayloadConnection ''Acc1''))
   \<and> snd (getMultipleAccounts_strict emptyPayloadConnection [''Acc1'', ''Acc2''])
       = Inr [Some [], Some []]
   \<and> \<not> raises ''MULTIPLE_ACCOUNTS_FETCH_ERROR''
          (snd (getMultipleAccounts_strict emptyPayloadConnection [''Acc1'', ''Acc2'']))
   \<and> snd (getEntityDataById_strict derive emptyPayloadConnection ''Prog'' ''e1'' ''default_world'')
       = Inr (Some [])
   \<and> \<not> raises ''ENTITY_GET_ERROR''
          (snd (getEntityDataById_strict derive emptyPayloadConnection ''Prog'' ''e1'' ''default_world''))"
  by (simp add: getData_strict_def getData_try_def getMultipleAccounts_strict_def
        getMultipleAccounts_try_def getEntityDataById_strict_def getEntityDataById_try_def
        derive_def dataOrNull_def emptyPayloadConnection_def emptyAccount_def raises_def)

text \<open>
  C7, amended. No read of the adapter with \<^verbatim>\<open>SolanaStorageError\<close> returns an absent
  value. \<^verbatim>\<open>getData\<close> raises with the code \<^verbatim>\<open>DATA_FETCH_ERROR\<close> when the request fails, when
  no account is found and when the account has no \<^verbatim>\<open>data\<close>; \<^verbatim>\<open>getMultipleAccounts\<close> raises
  with \<^verbatim>\<open>MULTIPLE_ACCOUNTS_FETCH_ERROR\<close> when the request fails or one account of the answer
  is not found or has no \<^verbatim>\<open>data\<close>; \<^verbatim>\<open>getEntityDataById\<close> raises with \<^verbatim>\<open>ENTITY_GET_ERROR\<close>
  when the address derivation or the request fails, when no account is found and when
  the account has no \<^verbatim>\<open>data\<close>. Otherwise each returns the \<^verbatim>\<open>Buffer\<close> of the account,
  whatever its length.
\<close>

theorem strict_reads:
  "(case getAccountInfo conn address of
      Inl error \<Rightarrow> raises ''DATA_FETCH_ERROR'' (snd (getData_strict conn address))
    | Inr info \<Rightarrow>
        (case dataOrNull info of
           None \<Rightarrow> raises ''DATA_FETCH_ERROR'' (snd (getData_strict conn address))
         | Some d \<Rightarrow> snd (getData_strict conn address) = Inr (Some d)))
   \<and> (case getMultipleAccountsInfo conn addresses of
        Inl error \<Rightarrow>
          raises ''MULTIPLE_ACCOUNTS_FETCH_ERROR'' (snd (getMultipleAccounts_strict conn addresses))
      | Inr accountsInfo \<Rightarrow>
          if None \<in> set (map dataOrNull accountsInfo)
          then raises ''MULTIPLE_ACCOUNTS_FETCH_ERROR'' (snd (getMultipleAccounts_strict conn addresses))
          else snd (getMultipleAccounts_strict conn addresses) = Inr (map dataOrNull accountsInfo))
   \<and> (case findProgramAddressSync [''entity'', worldName, entityId] programId of
        Inl error \<Rightarrow>
          raises ''ENTITY_GET_ERROR''
            (snd (getEntityDataById_strict findProgramAddressSync conn programId entityId worldName))
      | Inr (entityPda, bump) \<Rightarrow>
         (case getAccountInfo conn entityPda of
            Inl error \<Rightarrow>
              raises ''ENTITY_GET_ERROR''
                (snd (getEntityDataById_strict findProgramAddressSync conn programId entityId worldName))
          | Inr info \<Rightarrow>
              (case dataOrNull info of
                 None \<Rightarrow>
                   raises ''ENTITY_GET_ERROR''
                     (snd (getEntityDataById_strict findProgramAddressSync conn programId entityId worldName))
               | Some d \<Rightarrow>
                   snd (getEntityDataById_strict findProgramAddressSync conn programId entityId worldName)
                     = Inr (Some d))))
   \<and> snd (getData_strict conn address) \<noteq> Inr None
   \<and> (\<forall>rs. snd (getMultipleAccounts_strict conn addresses) = Inr rs \<longrightarrow> None \<notin> set rs)
   \<and> snd (getEntityDataById_strict findProgramAddressSync conn programId entityId worldName) \<noteq> Inr None"
proof -
  have single: "(case getAccountInfo conn address of
      Inl error \<Rightarrow> raises ''DATA_FETCH_ERROR'' (snd (getData_strict conn address))
    | Inr info \<Rightarrow>
        (case dataOrNull info of
           None \<Rightarrow> raises ''DATA_FETCH_ERROR'' (snd (getData_strict conn address))
         | Some d \<Rightarrow> snd (getData_strict conn address) = Inr (Some d)))"
    by (simp add: getData_strict_def getData_try_def split: sum.splits option.splits)
  have batch: "(case getMultipleAccountsInfo conn addresses of
        Inl error \<Rightarrow>
          raises ''MULTIPLE_ACCOUNTS_FETCH_ERROR'' (snd (getMultipleAccounts_strict conn addresses))
      | Inr accountsInfo \<Rightarrow>
          if None \<in> set (map dataOrNull accountsInfo)
          then raises ''MULTIPLE_ACCOUNTS_FETCH_ERROR'' (snd (getMultipleAccounts_strict conn addresses))
          else snd (getMultipleAccounts_strict conn addresses) = Inr (map dataOrNull accountsInfo))"
  proof (cases "getMultipleAccountsInfo conn addresses")
    case (Inl error)
    then show ?thesis
      by (simp add: getMultipleAccounts_strict_def getMultipleAccounts_try_def)
  next
    case (Inr accountsInfo)
    show ?thesis
    proof (cases "None \<in> set (map dataOrNull accountsInfo)")
      case True
      then obtain e where "collectData addresses 0 accountsInfo = Inl e"
        using collectData_None by blast
      then show ?thesis using Inr True
        by (simp add: getMultipleAccounts_strict_def getMultipleAccounts_try_def)
    next
      case False
      then obtain ds where "collectData addresses 0 accountsInfo = Inr ds"
        and "map Some ds = map dataOrNull accountsInfo"
        using collectData_Some by blast
      then show ?thesis using Inr False
        by (simp add: getMultipleAccounts_strict_def getMultipleAccounts_try_def)
    qed
  qed
  have entity: "(case findProgramAddressSync [''entity'', worldName, entityId] programId of
        Inl error \<Rightarrow>
          raises ''ENTITY_GET_ERROR''
            (snd (getEntityDataById_strict findProgramAddressSync conn programId entityId worldName))
      | Inr (entityPda, bump) \<Rightarrow>
         (case getAccountInfo conn entityPda of
            Inl error \<Rightarrow>
              raises ''ENTITY_GET_ERROR''
                (snd (getEntityDataById_strict findProgramAddressSync conn programId entityId worldName))
          | Inr info \<Rightarrow>
              (case dataOrNull info of
                 None \<Rightarrow>
                   raises ''ENTITY_GET_ERROR''
                     (snd (getEntityDataById_strict findProgramAddressSync conn programId entityId worldName))
               | Some d \<Rightarrow>
                   snd (getEntityDataById_strict findProgramAddressSync conn programId entityId worldName)
                     = Inr (Some d))))"
    by (simp add: getEntityDataById_strict_def getEntityDataById_try_def
          split: sum.splits option.splits prod.splits)
  have n1: "snd (getData_strict conn address) \<noteq> Inr None"
    by (simp add: getData_strict_def split: sum.splits)
  have n2: "\<forall>rs. snd (getMultipleAccounts_strict conn addresses) = Inr rs \<longrightarrow> None \<notin> set rs"
    by (auto simp: getMultipleAccounts_strict_def split: sum.splits)
  have n3: "snd (getEntityDataById_strict findProgramAddressSync conn programId entityId worldName)
              \<noteq> Inr None"
    by (simp add: getEntityDataById_strict_def split: sum.splits prod.splits)
  show ?thesis using single batch entity n1 n2 n3 by blast
qed

theorem strict_reads_witness:
  "raises ''DATA_FETCH_ERROR'' (snd (getData_strict failingConnection ''Acc1''))
   \<and> raises ''DATA_FETCH_ERROR'' (snd (getData_strict missingConnection ''Acc1''))
   \<and> raises ''MULTIPLE_ACCOUNTS_FETCH_ERROR'' (snd (getMultipleAccounts_strict failingConnection [''Acc1'']))
   \<and> raises ''MULTIPLE_ACCOUNTS_FETCH_ERROR'' (snd (getMultipleAccounts_strict missingConnection [''Acc1'', ''Acc1'']))
   \<and> raises ''ENTITY_GET_ERROR'' (snd (getEntityDataById_strict derive missingConnection ''Prog'' ''e1'' ''default_world''))
   \<and> snd (getData_strict missingConnection ''Acc1'')
       = Inl (SolanaStorageError
                ''Failed to fetch data for address Acc1: Account data not found for address Acc1''
                ''DATA_FETCH_ERROR'')"
proof -
  have m: "snd (getData_strict missingConnection ''Acc1'')
       = Inl (SolanaStorageError
                ''Failed to fetch data for address Acc1: Account data not found for address Acc1''
                ''DATA_FETCH_ERROR'')"
    by (simp add: getData_strict_def getData_try_def missingConnection_def dataOrNull_def SolanaStorageError_def)
  show ?thesis
    using m
      strict_reads [where conn = failingConnection and address = "''Acc1''"
        and addresses = "[''Acc1'']" and findProgramAddressSync = derive
        and worldName = "''default_world''" and entityId = "''e1''" and programId = "''Prog''"]
      strict_reads [where conn = missingConnection and address = "''Acc1''"
        and addresses = "[''Acc1'', ''Acc1'']" and findProgramAddressSync = derive
        and worldName = "''default_world''" and entityId = "''e1''" and programId = "''Prog''"]
    by (simp add: failingConnection_def missingConnection_def dataOrNull_def derive_def)
qed

end
